theory Spec2Isabelle
  imports Main
begin

section \<open>JavaScript values\<close>

text \<open>
  The handler of \<^verbatim>\<open>api/analyze.ts\<close> receives \<^verbatim>\<open>req: any\<close>; its body is whatever the
  JSON of the request held, and the oracle's answer is whatever \<^verbatim>\<open>JSON.parse\<close> returns.
  Both are values of the following type. A string is the list of its UTF-8 bytes. A
  number is carried as the decimal text that JavaScript prints for it
  (\<^verbatim>\<open>Number.prototype.toString\<close>): this code never calculates with a number, it only
  tests one for truth, prints it and serialises it, and each of these is a function of
  that text. An object is the list of its own enumerable properties in the order
  \<^verbatim>\<open>Object.keys\<close> enumerates them; a key occurs once.
\<close>

datatype jsval =
    Undefined
  | Null
  | Bool bool
  | Num string
  | Str string
  | Arr "jsval list"
  | Obj "(string \<times> jsval) list"

type_synonym obj = "(string \<times> jsval) list"

text \<open>ToBoolean, the test behind \<^verbatim>\<open>!x\<close> and \<^verbatim>\<open>if (x)\<close>.\<close>

fun truthy :: "jsval \<Rightarrow> bool" where
  "truthy Undefined = False"
| "truthy Null = False"
| "truthy (Bool b) = b"
| "truthy (Num t) = (t \<noteq> ''0'' \<and> t \<noteq> ''NaN'')"
| "truthy (Str s) = (s \<noteq> [])"
| "truthy (Arr xs) = True"
| "truthy (Obj kvs) = True"

text \<open>
  Reading a property \<^verbatim>\<open>v.k\<close> or \<^verbatim>\<open>v['k']\<close> of a value that is neither
  \<^verbatim>\<open>undefined\<close> nor \<^verbatim>\<open>null\<close> (on those the read throws, which each caller below
  writes out). None of the names this program reads is a built-in property of a string,
  number, boolean or array, so on those the read gives \<^verbatim>\<open>undefined\<close>.
\<close>

fun getprop :: "jsval \<Rightarrow> string \<Rightarrow> jsval" where
  "getprop (Obj kvs) k = (case map_of kvs k of None \<Rightarrow> Undefined | Some v \<Rightarrow> v)"
| "getprop v k = Undefined"

definition nullish :: "jsval \<Rightarrow> bool" where
  "nullish v = (v = Undefined \<or> v = Null)"

text \<open>\<^verbatim>\<open>Array.prototype.join\<close> on an array of strings.\<close>

fun join :: "string \<Rightarrow> string list \<Rightarrow> string" where
  "join sep [] = []"
| "join sep [x] = x"
| "join sep (x # y # ys) = x @ sep @ join sep (y # ys)"

text \<open>
  What a \<^verbatim>\<open>catch\<close> can receive. A TypeError raised by the engine is named by the
  operation that raised it and by what the operation was applied to; its message is the
  engine's wording, a parameter of the environment below.
\<close>

datatype fault =
    Destructure jsval
  | Not_a_function
  | Read_property jsval string
  | To_primitive
  | To_object jsval

datatype thrown =
    TypeError fault
  | Error_obj string
  | Non_error

text \<open>Evaluating a list of results in order: the first throw is the outcome.\<close>

fun sequence :: "(thrown + 'a) list \<Rightarrow> thrown + 'a list" where
  "sequence [] = Inr []"
| "sequence (x # xs) =
     (case x of
        Inl t \<Rightarrow> Inl t
      | Inr a \<Rightarrow> (case sequence xs of Inl t \<Rightarrow> Inl t | Inr as \<Rightarrow> Inr (a # as)))"

text \<open>
  ToString: \<^verbatim>\<open>String(v)\<close> and the interpolation \<^verbatim>\<open>${v}\<close> of a template literal.
  An object is converted by its \<^verbatim>\<open>toString\<close>: the one of \<^verbatim>\<open>Object.prototype\<close>, which
  prints \<^verbatim>\<open>[object Object]\<close>, unless the object has an own property of that name. A
  property that came from JSON is never a function, so it is skipped, \<^verbatim>\<open>valueOf\<close>
  returns no primitive either, and the conversion throws a TypeError. An array is
  converted by \<^verbatim>\<open>join\<close>, which converts each element that is neither \<^verbatim>\<open>null\<close> nor
  \<^verbatim>\<open>undefined\<close> and throws what that conversion throws.
\<close>

fun ToString :: "jsval \<Rightarrow> thrown + string" where
  "ToString Undefined = Inr ''undefined''"
| "ToString Null = Inr ''null''"
| "ToString (Bool b) = Inr (if b then ''true'' else ''false'')"
| "ToString (Num t) = Inr t"
| "ToString (Str s) = Inr s"
| "ToString (Arr xs) =
     (case sequence (map (\<lambda>x. if x = Undefined \<or> x = Null then Inr [] else ToString x) xs) of
        Inl t \<Rightarrow> Inl t
      | Inr parts \<Rightarrow> Inr (join '','' parts))"
| "ToString (Obj kvs) =
     (if map_of kvs ''toString'' \<noteq> None then Inl (TypeError To_primitive)
      else Inr ''[object Object]'')"

text \<open>\<^verbatim>\<open>JSON.stringify\<close>: QuoteJSONString on the bytes of a string, then the values.\<close>

definition hex_digit :: "nat \<Rightarrow> char" where
  "hex_digit n = ''0123456789abcdef'' ! n"

definition quote_char :: "char \<Rightarrow> string" where
  \<open>quote_char c =
     (if c = CHR ''"'' then [CHR 0x5C, CHR ''"'']
      else if c = CHR 0x5C then [CHR 0x5C, CHR 0x5C]
      else if c = CHR 0x08 then [CHR 0x5C, CHR ''b'']
      else if c = CHR 0x0C then [CHR 0x5C, CHR ''f'']
      else if c = CHR 0x0A then [CHR 0x5C, CHR ''n'']
      else if c = CHR 0x0D then [CHR 0x5C, CHR ''r'']
      else if c = CHR 0x09 then [CHR 0x5C, CHR ''t'']
      else if (of_char c :: nat) < 0x20
        then [CHR 0x5C, CHR ''u'', CHR ''0'', CHR ''0'',
              hex_digit (of_char c div 16), hex_digit (of_char c mod 16)]
      else [c])\<close>

definition quote :: "string \<Rightarrow> string" where
  \<open>quote s = CHR ''"'' # concat (map quote_char s) @ [CHR ''"'']\<close>

fun JSON_stringify :: "jsval \<Rightarrow> string option" where
  "JSON_stringify Undefined = None"
| "JSON_stringify Null = Some ''null''"
| "JSON_stringify (Bool b) = Some (if b then ''true'' else ''false'')"
| "JSON_stringify (Num t) =
     Some (if t = ''NaN'' \<or> t = ''Infinity'' \<or> t = ''-Infinity'' then ''null'' else t)"
| "JSON_stringify (Str s) = Some (quote s)"
| "JSON_stringify (Arr xs) =
     Some (''['' @ join '',''
       (map (\<lambda>x. case JSON_stringify x of None \<Rightarrow> ''null'' | Some s \<Rightarrow> s) xs) @ '']'')"
| "JSON_stringify (Obj kvs) =
     Some (''{'' @ join '',''
       (concat (map (\<lambda>(k, v). case JSON_stringify v of None \<Rightarrow> []
                                | Some s \<Rightarrow> [quote k @ '':'' @ s]) kvs)) @ ''}'')"

text \<open>A template literal prints \<^verbatim>\<open>undefined\<close> when \<^verbatim>\<open>JSON.stringify\<close> returns it.\<close>

definition interpolate :: "string option \<Rightarrow> string" where
  "interpolate r = (case r of None \<Rightarrow> ''undefined'' | Some s \<Rightarrow> s)"

text \<open>
  \<^verbatim>\<open>String.prototype.trim\<close>: the white space and line terminators of ECMAScript, each
  as its UTF-8 bytes, removed from both ends.
\<close>

definition WhiteSpace :: "string list" where
  "WhiteSpace =
     [[CHR 0x09], [CHR 0x0A], [CHR 0x0B], [CHR 0x0C], [CHR 0x0D], [CHR 0x20],
      [CHR 0xC2, CHR 0xA0], [CHR 0xE1, CHR 0x9A, CHR 0x80],
      [CHR 0xE2, CHR 0x80, CHR 0x80], [CHR 0xE2, CHR 0x80, CHR 0x81],
      [CHR 0xE2, CHR 0x80, CHR 0x82], [CHR 0xE2, CHR 0x80, CHR 0x83],
      [CHR 0xE2, CHR 0x80, CHR 0x84], [CHR 0xE2, CHR 0x80, CHR 0x85],
      [CHR 0xE2, CHR 0x80, CHR 0x86], [CHR 0xE2, CHR 0x80, CHR 0x87],
      [CHR 0xE2, CHR 0x80, CHR 0x88], [CHR 0xE2, CHR 0x80, CHR 0x89],
      [CHR 0xE2, CHR 0x80, CHR 0x8A], [CHR 0xE2, CHR 0x80, CHR 0xA8],
      [CHR 0xE2, CHR 0x80, CHR 0xA9], [CHR 0xE2, CHR 0x80, CHR 0xAF],
      [CHR 0xE2, CHR 0x81, CHR 0x9F], [CHR 0xE3, CHR 0x80, CHR 0x80],
      [CHR 0xEF, CHR 0xBB, CHR 0xBF]]"

fun strip_leading :: "string list \<Rightarrow> string \<Rightarrow> string" where
  "strip_leading seqs [] = []"
| "strip_leading seqs (c # cs) =
     (if [c] \<in> set seqs then strip_leading seqs cs
      else if c # take 1 cs \<in> set seqs then strip_leading seqs (drop 1 cs)
      else if c # take 2 cs \<in> set seqs then strip_leading seqs (drop 2 cs)
      else c # cs)"

definition trim :: "string \<Rightarrow> string" where
  "trim s = rev (strip_leading (map rev WhiteSpace) (rev (strip_leading WhiteSpace s)))"

section \<open>types.ts\<close>

definition audienceOptions :: "(string \<times> string) list" where
  "audienceOptions =
     [(''general'', ''General Consumers (B2C)''),
      (''genz'', ''Gen Z / Young Adults''),
      (''millennials'', ''Millennials''),
      (''parents'', ''Parents / Families''),
      (''b2b'', ''B2B Professionals / Decision Makers''),
      (''smb'', ''Small Business Owners''),
      (''custom'', ''Custom...'')]"

definition toneOptions :: "(string \<times> string) list" where
  "toneOptions =
     [(''professional'', ''Professional / Authoritative''),
      (''friendly'', ''Friendly / Conversational''),
      (''humorous'', ''Humorous / Witty''),
      (''empathetic'', ''Empathetic / Caring''),
      (''inspirational'', ''Inspirational / Aspirational''),
      (''urgent'', ''Direct / Urgent''),
      (''custom'', ''Custom...'')]"

section \<open>api/analyze.ts: the instruction texts\<close>

text \<open>The five texts of \<^verbatim>\<open>getMarketingObjectiveInstructions\<close>, byte for byte.\<close>

definition awareness_instructions :: string where
  \<open>awareness_instructions =
    ''The user\'s goal is \'Create Awareness\'. The main goal is to get attention and be memorable.\<newline>'' @
    ''                - **subjectiveFitScore**: Should be HIGHEST for messages that are simple, catchy, and have a strong emotional hook (positive like joy/surprise, or even negative if it\'s attention-grabbing). Prioritize high shareability and clarity.\<newline>'' @
    ''                - A message is a POOR FIT if it is too complex, boring, or lacks a strong emotional angle.''\<close>

definition consideration_instructions :: string where
  \<open>consideration_instructions =
    ''The user\'s goal is \'Drive Consideration\'. The main goal is to build trust and inform the user, helping them evaluate the product.\<newline>'' @
    ''                - **subjectiveFitScore**: Should be HIGHEST for messages that are informative, benefit-driven, and have a neutral-to-positive, trustworthy tone. Clarity and credibility are key.\<newline>'' @
    ''                - A message is a POOR FIT if it\'s overly emotional, vague, or sounds like high-pressure sales hype.''\<close>

definition sales_instructions :: string where
  \<open>sales_instructions =
    ''The user\'s goal is \'Drive Sales (Conversion)\'. The main goal is to get the user to take a specific action NOW.\<newline>'' @
    ''                - **subjectiveFitScore**: Should be HIGHEST for messages with a very clear, strong Call-to-Action (CTA) that create urgency or scarcity (e.g., using fear of missing out). A slightly anxious or exciting tone is GOOD. The ctaStrengthScore is critical for this objective.\<newline>'' @
    ''                - A message is a POOR FIT if the CTA is weak/unclear, or if the tone is too passive and doesn\'t motivate action.''\<close>

definition loyalty_instructions :: string where
  \<open>loyalty_instructions =
    ''The user\'s goal is \'Build Loyalty (Retention)\'. The main goal is to make existing customers feel valued.\<newline>'' @
    ''                - **subjectiveFitScore**: Should be HIGHEST for messages with a warm, appreciative, and positive tone. Language of exclusivity ("for our members"), community, and gratitude should be rewarded.\<newline>'' @
    ''                - A message is a POOR FIT if it feels impersonal, generic, or is too focused on selling instead of thanking or rewarding.''\<close>

definition default_instructions :: string where
  \<open>default_instructions =
    ''No specific objective provided. Use a general-purpose analysis, balancing all factors equally.''\<close>

text \<open>The \<^verbatim>\<open>switch\<close> compares with \<^verbatim>\<open>===\<close>: only a string equal to a label matches.\<close>

definition getMarketingObjectiveInstructions :: "jsval \<Rightarrow> string" where
  "getMarketingObjectiveInstructions objective =
     (if objective = Str ''awareness'' then awareness_instructions
      else if objective = Str ''consideration'' then consideration_instructions
      else if objective = Str ''sales'' then sales_instructions
      else if objective = Str ''loyalty'' then loyalty_instructions
      else default_instructions)"

text \<open>
  \<^verbatim>\<open>options.find(opt => opt.value === x)?.label\<close>, for \<^verbatim>\<open>audienceOptions\<close> and
  \<^verbatim>\<open>toneOptions\<close>.
\<close>

definition find_label :: "(string \<times> string) list \<Rightarrow> jsval \<Rightarrow> jsval" where
  "find_label options x =
     (case find (\<lambda>opt. Str (fst opt) = x) options of
        None \<Rightarrow> Undefined
      | Some opt \<Rightarrow> Str (snd opt))"

definition getAudienceText :: "jsval \<Rightarrow> jsval" where
  "getAudienceText details =
     (if \<not> truthy (getprop details ''targetAudience'') then Null
      else if getprop details ''targetAudience'' = Str ''custom''
        then getprop details ''customTargetAudience''
      else find_label audienceOptions (getprop details ''targetAudience''))"

definition getBrandToneText :: "jsval \<Rightarrow> jsval" where
  "getBrandToneText details =
     (if \<not> truthy (getprop details ''brandTone'') then Null
      else if getprop details ''brandTone'' = Str ''custom''
        then getprop details ''customBrandTone''
      else find_label toneOptions (getprop details ''brandTone''))"

text \<open>
  One statement \<^verbatim>\<open>if (x) { instructions += `opening${x}closing`; }\<close>: the text it adds,
  or what the interpolation of \<^verbatim>\<open>x\<close> throws.
\<close>

definition detail_line :: "string \<Rightarrow> jsval \<Rightarrow> string \<Rightarrow> thrown + string" where
  "detail_line opening x closing =
     (if truthy x
      then case ToString x of Inl t \<Rightarrow> Inl t | Inr s \<Rightarrow> Inr (opening @ s @ closing)
      else Inr [])"

text \<open>
  \<^verbatim>\<open>getOptionalDetailsInstructions\<close>. It is called after the validation of the handler,
  so \<^verbatim>\<open>details\<close> is truthy and reading its properties does not throw; the three
  interpolations can throw, in the order audience, tone, key message.
\<close>

definition getOptionalDetailsInstructions :: "jsval \<Rightarrow> thrown + string" where
  \<open>getOptionalDetailsInstructions details =
     (case detail_line
             (''- **Target Audience:** "'')
             (getAudienceText details)
             (''". The message should resonate with this specific group.\<newline>'') of
        Inl t \<Rightarrow> Inl t
      | Inr audience \<Rightarrow>
     (case detail_line
             (''- **Brand Tone/Voice:** "'')
             (getBrandToneText details)
             (''". The message\'s tone must be consistent with this brand voice.\<newline>'') of
        Inl t \<Rightarrow> Inl t
      | Inr tone \<Rightarrow>
     (case detail_line
             (''- **Key Message/USP:** "'')
             (getprop details ''keyMessage'')
             (''". The message should clearly communicate or reinforce this core idea.\<newline>'') of
        Inl t \<Rightarrow> Inl t
      | Inr keyMessage \<Rightarrow>
          let instructions = audience @ tone @ keyMessage
          in Inr (if instructions \<noteq> []
                  then
                    ''\<newline>'' @
          ''        **Optional Campaign Details for Deeper Analysis:**\<newline>'' @
          ''        You MUST evaluate the campaign\'s fit against these specific details. The subjectiveFitScore should be heavily penalized if the message clashes with this context.\<newline>'' @
          ''    '' @
                    instructions @
                    ''\<newline>'' @
          ''            ''
                  else []))))\<close>

section \<open>api/analyze.ts: the prompt\<close>

text \<open>
  The fixed parts of the template literal \<^verbatim>\<open>prompt\<close>, in order, byte for byte. The
  part after the call-to-action examples is cut in three: the scoring criteria, the
  final calculations (the weights of the composite score, its rounding and the three
  recommendations with their thresholds) and the output format.
\<close>

definition prompt_opening :: string where
  \<open>prompt_opening =
    ''\<newline>'' @
    ''            You are an expert marketing campaign analyst. Your task is to evaluate one or more campaign messages based on a rigorous set of criteria and the user\'s specified context. Return the analysis in a structured JSON format.\<newline>'' @
    ''\<newline>'' @
    ''            **Critical Context: Marketing Objective**\<newline>'' @
    ''            ''\<close>

definition prompt_separator :: string where
  \<open>prompt_separator =
    ''\<newline>'' @
    ''            ''\<close>

definition prompt_campaigns_heading :: string where
  \<open>prompt_campaigns_heading =
    ''\<newline>'' @
    ''            \<newline>'' @
    ''            **Input Data:**\<newline>'' @
    ''\<newline>'' @
    ''            1.  **Campaign Messages:**\<newline>'' @
    ''                ```json\<newline>'' @
    ''                ''\<close>

definition prompt_keywords_heading :: string where
  \<open>prompt_keywords_heading =
    ''\<newline>'' @
    ''                ```\<newline>'' @
    ''\<newline>'' @
    ''            2.  **Trending Keywords:**\<newline>'' @
    ''                ```json\<newline>'' @
    ''                ''\<close>

definition prompt_ctas_heading :: string where
  \<open>prompt_ctas_heading =
    ''\<newline>'' @
    ''                ```\<newline>'' @
    ''\<newline>'' @
    ''            3.  **Call-to-Action (CTA) Examples:**\<newline>'' @
    ''                ```json\<newline>'' @
    ''                ''\<close>

definition prompt_criteria :: string where
  \<open>prompt_criteria =
    ''\<newline>'' @
    ''                ```\<newline>'' @
    ''\<newline>'' @
    ''            **Analysis Criteria (Score from 1 to 5):**\<newline>'' @
    ''\<newline>'' @
    ''            1.  **combinedEmotionScore (1-5):** Analyze the raw emotional tone, independent of intent. 1 is extremely negative, 3 is neutral, 5 is extremely positive.\<newline>'' @
    ''            2.  **clarityAndImpactScore (1-5):** Evaluate message quality. 1 is unclear and weak (passive voice, long sentences, jargon). 5 is crystal-clear and powerful (active voice, strong verbs, concise).\<newline>'' @
    ''            3.  **trendRelevanceScore (1-5):** Assess relevance to the provided "Trending Keywords". 1 is no relevance, 5 is highly relevant and well-integrated.\<newline>'' @
    ''            4.  **steppsShareabilityScore (1-5):** Evaluate potential for social sharing. Consider emotional resonance, practical value, and engagement. 1 is low, 5 is high.\<newline>'' @
    ''            5.  **ctaStrengthScore (1-5):** Analyze the Call-to-Action. 1 is weak, vague, or missing. 5 is clear, urgent, and persuasive.\<newline>'' @
    ''            6.  **subjectiveFitScore (1-5):** This is the most important score. Based on the **Marketing Objective** and any provided **Optional Campaign Details**, how well does the message fit the strategic goal? 1 is a complete mismatch, 5 is a perfect fit.\<newline>'' @
    ''\<newline>''\<close>

definition prompt_final_calculations :: string where
  \<open>prompt_final_calculations =
    ''            **Final Calculations:**\<newline>'' @
    ''\<newline>'' @
    ''            Using the scores from the analysis, calculate the following:\<newline>'' @
    ''\<newline>'' @
    ''            1.  **weightedCampaignConfidenceScore:** Calculate a weighted average using these weights:\<newline>'' @
    ''                *   subjectiveFitScore: 0.25\<newline>'' @
    ''                *   clarityAndImpactScore: 0.20\<newline>'' @
    ''                *   combinedEmotionScore: 0.20\<newline>'' @
    ''                *   ctaStrengthScore: 0.15\<newline>'' @
    ''                *   trendRelevanceScore: 0.10\<newline>'' @
    ''                *   steppsShareabilityScore: 0.10\<newline>'' @
    ''                Round the final score to two decimal places.\<newline>'' @
    ''\<newline>'' @
    ''            2.  **recommendation:** Based on the "weightedCampaignConfidenceScore", provide one of the following recommendations:\<newline>'' @
    ''                *   "'' @
    [CHR 0xE2, CHR 0x9C, CHR 0x85] @
    '' Strong potential to succeed" (if score >= 4.0)\<newline>'' @
    ''                *   "'' @
    [CHR 0xE2, CHR 0x9A, CHR 0xA0] @
    [CHR 0xEF, CHR 0xB8, CHR 0x8F] @
    '' Good, but revise key elements" (if score >= 3.0 and < 4.0)\<newline>'' @
    ''                *   "'' @
    [CHR 0xE2, CHR 0x9D, CHR 0x8C] @
    '' Needs rework before launch" (if score < 3.0)\<newline>'' @
    ''\<newline>''\<close>

definition prompt_output_format :: string where
  \<open>prompt_output_format =
    ''            **Output Format:**\<newline>'' @
    ''\<newline>'' @
    ''            Return a JSON object containing a single key "results" which is an array of JSON objects, one for each campaign message provided. Strictly adhere to the provided JSON schema for each object in the array.\<newline>'' @
    ''          ''\<close>

text \<open>
  \<^verbatim>\<open>ctas.map(c => c['CTA Text'])\<close>: only an array has \<^verbatim>\<open>map\<close> (any other truthy
  value makes the call throw), and reading the property of an element that is
  \<^verbatim>\<open>null\<close> throws.
\<close>

fun map_CTA_Text :: "jsval list \<Rightarrow> thrown + jsval list" where
  "map_CTA_Text [] = Inr []"
| "map_CTA_Text (c # cs) =
     (if nullish c then Inl (TypeError (Read_property c ''CTA Text''))
      else case map_CTA_Text cs of
             Inl e \<Rightarrow> Inl e
           | Inr ts \<Rightarrow> Inr (getprop c ''CTA Text'' # ts))"

definition cta_texts :: "jsval \<Rightarrow> thrown + jsval list" where
  "cta_texts ctas =
     (case ctas of
        Arr cs \<Rightarrow> map_CTA_Text cs
      | _ \<Rightarrow> Inl (TypeError Not_a_function))"

text \<open>
  Lines 126 to 183 of the handler: the two instruction texts, then the template literal.
  The optional details are printed first, so what they throw comes before what the
  calls to action throw.
\<close>

definition prompt :: "jsval \<Rightarrow> jsval \<Rightarrow> jsval \<Rightarrow> jsval \<Rightarrow> jsval \<Rightarrow> thrown + string" where
  "prompt campaigns keywords ctas objective details =
     (let objectiveInstructions = getMarketingObjectiveInstructions objective
      in case getOptionalDetailsInstructions details of
           Inl t \<Rightarrow> Inl t
         | Inr optionalDetailsInstructions \<Rightarrow>
        (case cta_texts ctas of
           Inl t \<Rightarrow> Inl t
         | Inr texts \<Rightarrow>
             Inr (prompt_opening @ objectiveInstructions @
                  prompt_separator @ optionalDetailsInstructions @
                  prompt_campaigns_heading @ interpolate (JSON_stringify campaigns) @
                  prompt_keywords_heading @ interpolate (JSON_stringify keywords) @
                  prompt_ctas_heading @ interpolate (JSON_stringify (Arr texts)) @
                  prompt_criteria @ prompt_final_calculations @ prompt_output_format)))"

section \<open>api/analyze.ts: the handler\<close>

text \<open>
  What the handler takes from outside: the credential \<^verbatim>\<open>process.env.API_KEY\<close>, the
  scoring oracle (\<^verbatim>\<open>ai.models.generateContent\<close> with the fixed model and schema, as a
  function of the prompt: it rejects with a thrown value, or resolves to a response
  whose \<^verbatim>\<open>text\<close> is a string or \<^verbatim>\<open>undefined\<close>), \<^verbatim>\<open>JSON.parse\<close>, and the engine's
  wording of its own TypeErrors.
\<close>

record env =
  API_KEY :: "string option"
  generateContent :: "string \<Rightarrow> thrown + string option"
  JSON_parse :: "string \<Rightarrow> thrown + jsval"
  engine_message :: "fault \<Rightarrow> string"

record request =
  req_method :: string
  req_body :: jsval

datatype payload = End_text string | Json jsval

record response =
  status :: nat
  headers :: "(string \<times> string list) list"
  payload :: payload

text \<open>A run of the handler: the response it sends and the prompts it sent to the oracle.\<close>

record run =
  reply :: response
  oracle_calls :: "string list"

definition respond_json :: "nat \<Rightarrow> jsval \<Rightarrow> response" where
  "respond_json code v = \<lparr>status = code, headers = [], payload = Json v\<rparr>"

text \<open>\<^verbatim>\<open>error instanceof Error ? error.message : "An unknown server error occurred."\<close>\<close>

definition errorMessage :: "env \<Rightarrow> thrown \<Rightarrow> string" where
  "errorMessage e t =
     (case t of
        TypeError f \<Rightarrow> engine_message e f
      | Error_obj m \<Rightarrow> m
      | Non_error \<Rightarrow> ''An unknown server error occurred.'')"

text \<open>
  The body of the \<^verbatim>\<open>try\<close> block: what it returns or throws, and the oracle calls made
  on the way.
\<close>

definition try_block :: "env \<Rightarrow> jsval \<Rightarrow> (thrown + response) \<times> string list" where
  "try_block e body =
     (if nullish body then (Inl (TypeError (Destructure body)), [])
      else
        let campaigns = getprop body ''campaigns'';
            keywords = getprop body ''keywords'';
            ctas = getprop body ''ctas'';
            objective = getprop body ''objective'';
            details = getprop body ''details''
        in if \<not> truthy campaigns \<or> \<not> truthy keywords \<or> \<not> truthy ctas \<or>
              \<not> truthy objective \<or> \<not> truthy details
           then (Inr (respond_json 400
                   (Obj [(''error'', Str ''Missing required parameters in request body.'')])), [])
           else
             case prompt campaigns keywords ctas objective details of
               Inl t \<Rightarrow> (Inl t, [])
             | Inr p \<Rightarrow>
                 (case generateContent e p of
                    Inl t \<Rightarrow> (Inl t, [p])
                  | Inr None \<Rightarrow> (Inl (TypeError (Read_property Undefined ''trim'')), [p])
                  | Inr (Some responseText) \<Rightarrow>
                      (case JSON_parse e (trim responseText) of
                         Inl t \<Rightarrow> (Inl t, [p])
                       | Inr parsedJson \<Rightarrow>
                           if truthy parsedJson \<and> truthy (getprop parsedJson ''results'')
                           then (Inr (respond_json 200 (getprop parsedJson ''results'')), [p])
                           else (Inl (Error_obj ''Invalid response structure from Gemini API.''),
                                 [p]))))"

text \<open>
  \<^verbatim>\<open>!API_KEY\<close> is false exactly when the variable is set to a string that is not
  empty.
\<close>

definition configured :: "env \<Rightarrow> bool" where
  "configured e = (case API_KEY e of None \<Rightarrow> False | Some k \<Rightarrow> k \<noteq> [])"

definition handler :: "env \<Rightarrow> request \<Rightarrow> run" where
  "handler e req =
     (if req_method req \<noteq> ''POST''
      then \<lparr>reply = \<lparr>status = 405, headers = [(''Allow'', [''POST''])],
                     payload = End_text (''Method '' @ req_method req @ '' Not Allowed'')\<rparr>,
            oracle_calls = []\<rparr>
      else if \<not> configured e
      then \<lparr>reply = respond_json 500
                     (Obj [(''error'', Str ''API_KEY environment variable not set on the server.'')]),
            oracle_calls = []\<rparr>
      else
        case try_block e (req_body req) of
          (Inr r, calls) \<Rightarrow> \<lparr>reply = r, oracle_calls = calls\<rparr>
        | (Inl t, calls) \<Rightarrow>
            \<lparr>reply = respond_json 500
                      (Obj [(''error'', Str ''Failed to analyze campaigns.''),
                            (''details'', Str (errorMessage e t))]),
             oracle_calls = calls\<rparr>)"

section \<open>The results table: the export\<close>

text \<open>
  A result record is an object; \<^verbatim>\<open>Object.keys\<close> and \<^verbatim>\<open>Object.values\<close> list its
  property names and values in the same order.
\<close>

definition Object_keys :: "obj \<Rightarrow> string list" where
  "Object_keys row = map fst row"

definition Object_values :: "obj \<Rightarrow> jsval list" where
  "Object_values row = map snd row"

text \<open>The replacement \<^verbatim>\<open>.replace(/"/g, '""')\<close>.\<close>

fun replace_quotes :: "string \<Rightarrow> string" where
  \<open>replace_quotes [] = []\<close>
| \<open>replace_quotes (c # cs) =
     (if c = CHR ''"'' then CHR ''"'' # CHR ''"'' # replace_quotes cs
      else c # replace_quotes cs)\<close>

text \<open>
  One cell: the template literal around the escaped \<^verbatim>\<open>String(value)\<close>, or what
  \<^verbatim>\<open>String(value)\<close> throws.
\<close>

definition quoted :: "string \<Rightarrow> string" where
  \<open>quoted s = CHR ''"'' # replace_quotes s @ [CHR ''"'']\<close>

definition csv_cell :: "jsval \<Rightarrow> thrown + string" where
  "csv_cell v = (case ToString v of Inl t \<Rightarrow> Inl t | Inr s \<Rightarrow> Inr (quoted s))"

definition csv_row :: "obj \<Rightarrow> thrown + string" where
  "csv_row row =
     (case sequence (map csv_cell (Object_values row)) of
        Inl t \<Rightarrow> Inl t
      | Inr cells \<Rightarrow> Inr (join '','' cells))"

text \<open>
  \<^verbatim>\<open>convertToCSV\<close>. On an empty array \<^verbatim>\<open>data[0]\<close> is \<^verbatim>\<open>undefined\<close> and
  \<^verbatim>\<open>Object.keys\<close> throws a TypeError before any text is built. The rows are built in
  order, after the header.
\<close>

definition convertToCSV :: "obj list \<Rightarrow> thrown + string" where
  "convertToCSV data =
     (case data of
        [] \<Rightarrow> Inl (TypeError (To_object Undefined))
      | first # _ \<Rightarrow>
          let headers = join '','' (Object_keys first)
          in case sequence (map csv_row data) of
               Inl t \<Rightarrow> Inl t
             | Inr rows \<Rightarrow> Inr (join ''\<newline>'' (headers # rows)))"

text \<open>
  \<^verbatim>\<open>handleDownload\<close>: the file handed to the browser, when the anchor element supports
  the \<^verbatim>\<open>download\<close> attribute. The conversion runs first, so what it throws leaves the
  handler before any file exists.
\<close>

record download =
  file_name :: string
  mime_type :: string
  content :: string

definition handleDownload :: "bool \<Rightarrow> obj list \<Rightarrow> thrown + download option" where
  "handleDownload supports_download results =
     (case convertToCSV results of
        Inl t \<Rightarrow> Inl t
      | Inr csv \<Rightarrow>
          Inr (if supports_download
               then Some \<lparr>file_name = ''Campaign_Evaluation_Result.csv'',
                          mime_type = ''text/csv;charset=utf-8;'',
                          content = csv\<rparr>
               else None))"

section \<open>Reading an export back\<close>

text \<open>
  Modelled from the spec: the repository has no reader for the file it exports. The
  reader of the round-trip property is written from the words of the spec: the text is
  split after the header row; each following row is a sequence of quoted fields
  separated by commas; a field is unquoted and each doubled quote inside it becomes a
  single one. A field ends at a quote that is not followed by a second quote, so a
  comma or a line break inside a field belongs to the field.
\<close>

fun unquote :: "string \<Rightarrow> (string \<times> string) option" where
  \<open>unquote [] = None\<close>
| \<open>unquote [c] = (if c = CHR ''"'' then Some ([], []) else None)\<close>
| \<open>unquote (c # d # cs) =
     (if c = CHR ''"'' then
        (if d = CHR ''"'' then map_option (apfst ((#) c)) (unquote cs)
         else Some ([], d # cs))
      else map_option (apfst ((#) c)) (unquote (d # cs)))\<close>

lemma unquote_shorter: "unquote s = Some (f, r) \<Longrightarrow> length r < length s"
  by (induction s arbitrary: f r rule: unquote.induct) (auto split: if_splits)

function parse_rows :: "string \<Rightarrow> string list list option" where
  \<open>parse_rows [] = Some [[]]\<close>
| \<open>parse_rows (c # cs) =
     (if c = CHR ''\<newline>'' then map_option ((#) []) (parse_rows cs)
      else if c = CHR ''"'' then
        (case unquote cs of
           None \<Rightarrow> None
         | Some (f, []) \<Rightarrow> Some [[f]]
         | Some (f, d # r) \<Rightarrow>
             if d = CHR ''\<newline>'' then map_option ((#) [f]) (parse_rows r)
             else if d = CHR '','' \<and> r \<noteq> [] \<and> hd r = CHR ''"'' then
               (case parse_rows r of
                  Some (row # rows) \<Rightarrow> Some ((f # row) # rows)
                | _ \<Rightarrow> None)
             else None)
      else None)\<close>
  by pat_completeness auto
termination
  by (relation "measure length") (auto dest: unquote_shorter)

definition parse_csv :: "string \<Rightarrow> (string \<times> string list list) option" where
  \<open>parse_csv csv =
     (let header = takeWhile (\<lambda>c. c \<noteq> CHR ''\<newline>'') csv;
          rest = dropWhile (\<lambda>c. c \<noteq> CHR ''\<newline>'') csv
      in case rest of
           [] \<Rightarrow> None
         | _ # body \<Rightarrow> map_option (Pair header) (parse_rows body))\<close>

section \<open>Example inputs\<close>

text \<open>The three recommendation labels that the prompt asks the oracle to choose from.\<close>

definition label_strong :: string where
  "label_strong = [CHR 0xE2, CHR 0x9C, CHR 0x85] @ '' Strong potential to succeed''"

definition label_good :: string where
  "label_good =
     [CHR 0xE2, CHR 0x9A, CHR 0xA0, CHR 0xEF, CHR 0xB8, CHR 0x8F] @ '' Good, but revise key elements''"

definition label_rework :: string where
  "label_rework = [CHR 0xE2, CHR 0x9D, CHR 0x8C] @ '' Needs rework before launch''"

text \<open>Two result records; the first message holds quotes and a comma, the second a line break.\<close>

definition example_results :: "obj list" where
  \<open>example_results =
     [[(''campaignMessage'', Str ''Say "yes", now''),
       (''combinedEmotionScore'', Num ''4.5''),
       (''clarityAndImpactScore'', Num ''4''),
       (''trendRelevanceScore'', Num ''3''),
       (''steppsShareabilityScore'', Num ''4''),
       (''ctaStrengthScore'', Num ''5''),
       (''subjectiveFitScore'', Num ''4''),
       (''weightedCampaignConfidenceScore'', Num ''4.15''),
       (''recommendation'', Str label_strong)],
      [(''campaignMessage'', Str ''Two\<newline>lines''),
       (''combinedEmotionScore'', Num ''2''),
       (''clarityAndImpactScore'', Num ''2''),
       (''trendRelevanceScore'', Num ''2''),
       (''steppsShareabilityScore'', Num ''2''),
       (''ctaStrengthScore'', Num ''2''),
       (''subjectiveFitScore'', Num ''2''),
       (''weightedCampaignConfidenceScore'', Num ''2''),
       (''recommendation'', Str label_rework)]]\<close>

text \<open>A request body with every field, and the same body with one field left out.\<close>

definition example_body :: jsval where
  "example_body =
     Obj [(''campaigns'', Arr [Str ''Buy now'']),
          (''keywords'', Arr [Str ''sale'']),
          (''ctas'', Arr [Obj [(''CTA Text'', Str ''Shop''), (''Type Score'', Num ''3'')]]),
          (''objective'', Str ''sales''),
          (''details'', Obj [])]"

definition body_without_objective :: jsval where
  "body_without_objective =
     Obj [(''campaigns'', Arr [Str ''Buy now'']),
          (''keywords'', Arr [Str ''sale'']),
          (''ctas'', Arr [Obj [(''CTA Text'', Str ''Shop''), (''Type Score'', Num ''3'')]]),
          (''details'', Obj [])]"


text \<open>
  The same body as \<open>example_body\<close> but for the call to action, which keeps its text and
  differs in every other field.
\<close>

definition body_other_cta_fields :: jsval where
  "body_other_cta_fields =
     Obj [(''campaigns'', Arr [Str ''Buy now'']),
          (''keywords'', Arr [Str ''sale'']),
          (''ctas'', Arr [Obj [(''Tone Score'', Num ''1''), (''CTA Text'', Str ''Shop''),
                              (''note'', Str ''draft'')]]),
          (''objective'', Str ''sales''),
          (''details'', Obj [])]"

text \<open>Empty arrays for the three list fields; and an empty objective.\<close>

definition body_empty_arrays :: jsval where
  "body_empty_arrays =
     Obj [(''campaigns'', Arr []),
          (''keywords'', Arr []),
          (''ctas'', Arr []),
          (''objective'', Str ''sales''),
          (''details'', Obj [])]"

definition body_empty_objective :: jsval where
  "body_empty_objective =
     Obj [(''campaigns'', Arr [Str ''Buy now'']),
          (''keywords'', Arr [Str ''sale'']),
          (''ctas'', Arr [Obj [(''CTA Text'', Str ''Shop'')]]),
          (''objective'', Str []),
          (''details'', Obj [])]"

definition body_unknown_objective :: jsval where
  "body_unknown_objective =
     Obj [(''campaigns'', Arr [Str ''Buy now'']),
          (''keywords'', Arr [Str ''sale'']),
          (''ctas'', Arr [Obj [(''CTA Text'', Str ''Shop'')]]),
          (''objective'', Str ''virality''),
          (''details'', Obj [])]"

text \<open>
  Six oracles: one answers with no record at all, one answers with a record whose
  composite score and recommendation do not follow from its six component scores, one
  is unreachable, one answers without text, one answers with text that is not JSON, one
  answers with an object that has no \<^verbatim>\<open>results\<close>. \<open>example_JSON_parse\<close> is
  \<^verbatim>\<open>JSON.parse\<close> on the three answers that are JSON and throws a SyntaxError on any
  other text.
\<close>

definition no_results_text :: string where
  \<open>no_results_text = ''{"results":[]}''\<close>

definition miscalculated_text :: string where
  \<open>miscalculated_text =
     ''{"results":[{"campaignMessage":"Buy now","combinedEmotionScore":5,'' @
     ''"clarityAndImpactScore":5,"trendRelevanceScore":5,"steppsShareabilityScore":5,'' @
     ''"ctaStrengthScore":5,"subjectiveFitScore":5,"weightedCampaignConfidenceScore":1,'' @
     ''"recommendation":"'' @ label_rework @ ''"}]}''\<close>

definition miscalculated_record :: jsval where
  "miscalculated_record =
     Obj [(''campaignMessage'', Str ''Buy now''),
          (''combinedEmotionScore'', Num ''5''),
          (''clarityAndImpactScore'', Num ''5''),
          (''trendRelevanceScore'', Num ''5''),
          (''steppsShareabilityScore'', Num ''5''),
          (''ctaStrengthScore'', Num ''5''),
          (''subjectiveFitScore'', Num ''5''),
          (''weightedCampaignConfidenceScore'', Num ''1''),
          (''recommendation'', Str label_rework)]"

definition oracle_no_results :: "string \<Rightarrow> thrown + string option" where
  "oracle_no_results p = Inr (Some ('' '' @ no_results_text @ ''\<newline>''))"

definition oracle_miscalculating :: "string \<Rightarrow> thrown + string option" where
  "oracle_miscalculating p = Inr (Some miscalculated_text)"

definition oracle_unreachable :: "string \<Rightarrow> thrown + string option" where
  "oracle_unreachable p = Inl (Error_obj ''fetch failed'')"

definition oracle_without_text :: "string \<Rightarrow> thrown + string option" where
  "oracle_without_text p = Inr None"

definition oracle_unparsable :: "string \<Rightarrow> thrown + string option" where
  "oracle_unparsable p = Inr (Some ''Sorry, I cannot help.'')"

definition oracle_without_results :: "string \<Rightarrow> thrown + string option" where
  "oracle_without_results p = Inr (Some ''{}'')"

definition example_JSON_parse :: "string \<Rightarrow> thrown + jsval" where
  "example_JSON_parse s =
     (if s = no_results_text then Inr (Obj [(''results'', Arr [])])
      else if s = ''{}'' then Inr (Obj [])
      else if s = miscalculated_text then Inr (Obj [(''results'', Arr [miscalculated_record])])
      else Inl (Error_obj ''Unexpected token''))"

definition nullish_name :: "jsval \<Rightarrow> string" where
  "nullish_name v = (if v = Null then ''null'' else ''undefined'')"

definition example_messages :: "fault \<Rightarrow> string" where
  "example_messages f =
     (case f of
        Destructure v \<Rightarrow> ''Cannot destructure property of '' @ nullish_name v
      | Not_a_function \<Rightarrow> ''ctas.map is not a function''
      | Read_property v k \<Rightarrow>
          ''Cannot read properties of '' @ nullish_name v @ '' (reading '' @ k @ '')''
      | To_primitive \<Rightarrow> ''Cannot convert object to primitive value''
      | To_object v \<Rightarrow> ''Cannot convert undefined or null to object'')"

definition env_no_results :: env where
  "env_no_results =
     \<lparr>API_KEY = Some ''key'', generateContent = oracle_no_results,
      JSON_parse = example_JSON_parse, engine_message = example_messages\<rparr>"

definition env_miscalculating :: env where
  "env_miscalculating =
     \<lparr>API_KEY = Some ''key'', generateContent = oracle_miscalculating,
      JSON_parse = example_JSON_parse, engine_message = example_messages\<rparr>"

definition env_unreachable :: env where
  "env_unreachable =
     \<lparr>API_KEY = Some ''key'', generateContent = oracle_unreachable,
      JSON_parse = example_JSON_parse, engine_message = example_messages\<rparr>"

definition env_without_text :: env where
  "env_without_text =
     \<lparr>API_KEY = Some ''key'', generateContent = oracle_without_text,
      JSON_parse = example_JSON_parse, engine_message = example_messages\<rparr>"

definition env_unparsable :: env where
  "env_unparsable =
     \<lparr>API_KEY = Some ''key'', generateContent = oracle_unparsable,
      JSON_parse = example_JSON_parse, engine_message = example_messages\<rparr>"

definition env_without_results :: env where
  "env_without_results =
     \<lparr>API_KEY = Some ''key'', generateContent = oracle_without_results,
      JSON_parse = example_JSON_parse, engine_message = example_messages\<rparr>"

definition env_unconfigured :: env where
  "env_unconfigured =
     \<lparr>API_KEY = None, generateContent = oracle_no_results,
      JSON_parse = example_JSON_parse, engine_message = example_messages\<rparr>"

definition post :: "jsval \<Rightarrow> request" where
  "post body = \<lparr>req_method = ''POST'', req_body = body\<rparr>"

section \<open>The export: format and round trip\<close>

lemma set_join: "set (join sep xs) \<subseteq> set sep \<union> (\<Union>x\<in>set xs. set x)"
  by (induction sep xs rule: join.induct) auto

lemma replace_quotes_concat:
  \<open>replace_quotes s = concat (map (\<lambda>c. if c = CHR ''"'' then [c, c] else [c]) s)\<close>
  by (induction s) simp_all

lemma sequence_Inr:
  "list_all2 (\<lambda>x a. f x = Inr a) xs as \<Longrightarrow> sequence (map f xs) = Inr as"
  by (induction xs as rule: list_all2_induct) simp_all

lemma sequence_Inl: "sequence xs = Inl t \<Longrightarrow> Inl t \<in> set xs"
  by (induction xs) (auto split: sum.splits)

text \<open>The only thing the conversion to a string throws is the TypeError of an object.\<close>

lemma ToString_throws: "ToString v = Inl t \<Longrightarrow> t = TypeError To_primitive"
proof (induction v arbitrary: t rule: ToString.induct)
  case (6 xs)
  from "6.prems" have
    "sequence (map (\<lambda>x. if x = Undefined \<or> x = Null then Inr [] else ToString x) xs) = Inl t"
    by (simp split: sum.splits)
  then obtain x where "x \<in> set xs" and "x \<noteq> Undefined" and "x \<noteq> Null" and "ToString x = Inl t"
    by (auto dest!: sequence_Inl split: if_splits)
  then show ?case using "6.IH" by blast
qed (simp_all split: if_splits)

lemma csv_row_throws:
  assumes "csv_row row = Inl t"
  shows "t = TypeError To_primitive"
proof -
  from assms have "sequence (map csv_cell (Object_values row)) = Inl t"
    by (simp add: csv_row_def split: sum.splits)
  then have "Inl t \<in> set (map csv_cell (Object_values row))"
    by (rule sequence_Inl)
  then obtain v where "csv_cell v = Inl t" by auto
  then have "ToString v = Inl t"
    by (simp add: csv_cell_def split: sum.splits)
  then show ?thesis by (rule ToString_throws)
qed

lemma join_Cons_nonempty: "xs \<noteq> [] \<Longrightarrow> join sep (x # xs) = x @ sep @ join sep xs"
  by (cases xs) simp_all

lemma csv_row_texts:
  assumes "list_all2 (\<lambda>v s. ToString v = Inr s) (Object_values row) ss"
  shows "csv_row row = Inr (join '','' (map quoted ss))"
proof -
  from assms have "list_all2 (\<lambda>v c. csv_cell v = Inr c) (Object_values row) (map quoted ss)"
    by (induction rule: list_all2_induct) (simp_all add: csv_cell_def)
  then show ?thesis by (simp add: csv_row_def sequence_Inr)
qed

lemma convertToCSV_texts:
  assumes "data \<noteq> []"
    and "list_all2 (\<lambda>row ss. list_all2 (\<lambda>v s. ToString v = Inr s) (Object_values row) ss) data texts"
  shows "convertToCSV data =
           Inr (join ''\<newline>'' (join '','' (Object_keys (hd data)) #
                                     map (\<lambda>ss. join '','' (map quoted ss)) texts))"
proof -
  from assms(2) have
    "list_all2 (\<lambda>row r. csv_row row = Inr r) data (map (\<lambda>ss. join '','' (map quoted ss)) texts)"
    by (induction rule: list_all2_induct) (simp_all add: csv_row_texts)
  then have "sequence (map csv_row data) = Inr (map (\<lambda>ss. join '','' (map quoted ss)) texts)"
    by (rule sequence_Inr)
  with assms(1) show ?thesis
    by (cases data) (simp_all add: convertToCSV_def)
qed

text \<open>
  Reading one cell back: the reader stops at the closing quote, because what follows a
  cell is a comma, a line break or the end of the text, never a quote.
\<close>

lemma unquote_cell:
  \<open>r = [] \<or> hd r \<noteq> CHR ''"'' \<Longrightarrow> unquote (replace_quotes s @ CHR ''"'' # r) = Some (s, r)\<close>
proof (induction s)
  case Nil
  then show ?case by (cases r) auto
next
  case (Cons c s)
  obtain d cs where X: \<open>replace_quotes s @ CHR ''"'' # r = d # cs\<close>
    by (cases \<open>replace_quotes s @ CHR ''"'' # r\<close>) auto
  show ?case
  proof (cases \<open>c = CHR ''"''\<close>)
    case True
    with Cons show ?thesis by simp
  next
    case False
    have \<open>unquote (c # d # cs) = map_option (apfst ((#) c)) (unquote (d # cs))\<close>
      using False by simp
    with Cons X False show ?thesis by simp
  qed
qed

lemma parse_rows_cell_end: \<open>parse_rows (quoted s) = Some [[s]]\<close>
proof -
  have \<open>unquote (replace_quotes s @ CHR ''"'' # []) = Some (s, [])\<close>
    by (rule unquote_cell) simp
  then show ?thesis by (simp add: quoted_def)
qed

lemma parse_rows_cell_newline:
  \<open>parse_rows (quoted s @ CHR ''\<newline>'' # t) = map_option ((#) [s]) (parse_rows t)\<close>
proof -
  have \<open>unquote (replace_quotes s @ CHR ''"'' # CHR ''\<newline>'' # t) = Some (s, CHR ''\<newline>'' # t)\<close>
    by (rule unquote_cell) simp
  then show ?thesis by (simp add: quoted_def)
qed

lemma parse_rows_cell_comma:
  assumes \<open>X \<noteq> []\<close> and \<open>hd X = CHR ''"''\<close>
  shows \<open>parse_rows (quoted s @ CHR '','' # X) =
     (case parse_rows X of
        Some (row # rows) \<Rightarrow> Some ((s # row) # rows)
      | _ \<Rightarrow> None)\<close>
proof -
  have \<open>unquote (replace_quotes s @ CHR ''"'' # CHR '','' # X) = Some (s, CHR '','' # X)\<close>
    by (rule unquote_cell) simp
  with assms show ?thesis by (simp add: quoted_def)
qed

lemma join_cells_head:
  \<open>ss \<noteq> [] \<Longrightarrow>
     join '','' (map quoted ss) @ t \<noteq> [] \<and> hd (join '','' (map quoted ss) @ t) = CHR ''"''\<close>
  by (induction ss rule: induct_list012) (auto simp: quoted_def)

lemma cells_Cons2:
  \<open>join '','' (map quoted (s # u # ss)) @ t =
     quoted s @ CHR '','' # (join '','' (map quoted (u # ss)) @ t)\<close>
  by simp

lemma parse_rows_cells_step:
  \<open>parse_rows (join '','' (map quoted (s # u # ss)) @ t) =
     (case parse_rows (join '','' (map quoted (u # ss)) @ t) of
        Some (row # rows) \<Rightarrow> Some ((s # row) # rows)
      | _ \<Rightarrow> None)\<close>
  unfolding cells_Cons2
  by (rule parse_rows_cell_comma) (use join_cells_head[of \<open>u # ss\<close> t] in auto)

lemma parse_rows_cells_end:
  \<open>parse_rows (join '','' (map quoted ss)) = Some [ss]\<close>
proof (induction ss rule: induct_list012)
  case 1
  show ?case by simp
next
  case (2 s)
  show ?case by (simp add: parse_rows_cell_end)
next
  case (3 s u ss)
  show ?case
    using parse_rows_cells_step[of s u ss \<open>[]\<close>] 3(2) by simp
qed

lemma parse_rows_cells_newline:
  \<open>parse_rows (join '','' (map quoted ss) @ CHR ''\<newline>'' # t) =
     map_option ((#) ss) (parse_rows t)\<close>
proof (induction ss rule: induct_list012)
  case 1
  show ?case by simp
next
  case (2 s)
  show ?case by (simp add: parse_rows_cell_newline)
next
  case (3 s u ss)
  show ?case
    unfolding parse_rows_cells_step 3(2)
    by (cases \<open>parse_rows t\<close>) simp_all
qed

lemma parse_rows_all:
  \<open>texts \<noteq> [] \<Longrightarrow>
     parse_rows (join ''\<newline>'' (map (\<lambda>ss. join '','' (map quoted ss)) texts)) = Some texts\<close>
proof (induction texts rule: induct_list012)
  case 1
  then show ?case by simp
next
  case (2 r)
  show ?case by (simp add: parse_rows_cells_end)
next
  case (3 r r' rs)
  have \<open>parse_rows (join ''\<newline>'' (map (\<lambda>ss. join '','' (map quoted ss)) (r' # rs))) =
       Some (r' # rs)\<close>
    using 3 by simp
  moreover have \<open>join ''\<newline>'' (map (\<lambda>ss. join '','' (map quoted ss)) (r # r' # rs)) =
     join '','' (map quoted r) @ CHR ''\<newline>'' #
     join ''\<newline>'' (map (\<lambda>ss. join '','' (map quoted ss)) (r' # rs))\<close>
    by simp
  ultimately show ?case
    by (simp only: parse_rows_cells_newline) simp
qed

lemma parse_csv_header:
  assumes \<open>CHR ''\<newline>'' \<notin> set h\<close>
  shows \<open>parse_csv (h @ CHR ''\<newline>'' # body) = map_option (Pair h) (parse_rows body)\<close>
proof -
  from assms have \<open>\<And>x. x \<in> set h \<Longrightarrow> x \<noteq> CHR ''\<newline>''\<close> by auto
  then have \<open>takeWhile (\<lambda>c. c \<noteq> CHR ''\<newline>'') (h @ CHR ''\<newline>'' # body) = h\<close>
    and \<open>dropWhile (\<lambda>c. c \<noteq> CHR ''\<newline>'') (h @ CHR ''\<newline>'' # body) = CHR ''\<newline>'' # body\<close>
    by (simp_all add: takeWhile_append2 dropWhile_append2)
  then show ?thesis by (simp add: parse_csv_def)
qed

text \<open>
  C9. The conversion reads its header from \<^verbatim>\<open>data[0]\<close>: on the empty list
  \<^verbatim>\<open>Object.keys\<close> throws a TypeError, and so does the download handler, which produces
  no file, not a file with a header only. With a first record that TypeError does not
  occur.
\<close>

theorem convertToCSV_needs_first_record:
  \<open>convertToCSV [] = Inl (TypeError (To_object Undefined)) \<and>
   handleDownload supports_download [] = Inl (TypeError (To_object Undefined)) \<and>
   convertToCSV (first # others) \<noteq> Inl (TypeError (To_object Undefined))\<close>
proof (intro conjI)
  show \<open>convertToCSV [] = Inl (TypeError (To_object Undefined))\<close>
    by (simp add: convertToCSV_def)
  then show \<open>handleDownload supports_download [] = Inl (TypeError (To_object Undefined))\<close>
    by (simp add: handleDownload_def)
  show \<open>convertToCSV (first # others) \<noteq> Inl (TypeError (To_object Undefined))\<close>
  proof
    assume \<open>convertToCSV (first # others) = Inl (TypeError (To_object Undefined))\<close>
    then have \<open>sequence (map csv_row (first # others)) = Inl (TypeError (To_object Undefined))\<close>
      by (simp add: convertToCSV_def Let_def split: sum.splits)
    then have \<open>Inl (TypeError (To_object Undefined)) \<in> set (map csv_row (first # others))\<close>
      by (rule sequence_Inl)
    then obtain row where \<open>csv_row row = Inl (TypeError (To_object Undefined))\<close>
      by auto
    then have \<open>TypeError (To_object Undefined) = TypeError To_primitive\<close>
      by (rule csv_row_throws)
    then show False by simp
  qed
qed

text \<open>
  C6. For a result set that is not empty and whose values \<^verbatim>\<open>String\<close> can print (as
  it can every string and number, the values of a CampaignAnalysisResult), the exported
  text is the header row, the field names of the first record separated by commas,
  followed by one row for each record in order; a row is the record's values separated
  by commas, each value printed with \<^verbatim>\<open>String\<close>, every quote in it written twice, and
  the whole put between two quotes. Here \<open>texts\<close> holds, record by record, what
  \<^verbatim>\<open>String\<close> prints for each value.
\<close>

theorem csv_export_format:
  assumes \<open>data \<noteq> []\<close>
    and \<open>list_all2 (\<lambda>row ss. list_all2 (\<lambda>v s. ToString v = Inr s) (Object_values row) ss)
           data texts\<close>
  shows \<open>\<exists>rows. convertToCSV data = Inr (join ''\<newline>'' (join '','' (Object_keys (hd data)) # rows)) \<and>
           length rows = length data \<and>
           (\<forall>i < length data.
              rows ! i =
                join '',''
                  (map (\<lambda>s. [CHR ''"''] @
                             concat (map (\<lambda>c. if c = CHR ''"'' then [c, c] else [c]) s) @
                             [CHR ''"''])
                       (texts ! i)))\<close>
proof (intro exI conjI)
  show \<open>convertToCSV data =
          Inr (join ''\<newline>'' (join '','' (Object_keys (hd data)) #
                                    map (\<lambda>ss. join '','' (map quoted ss)) texts))\<close>
    using assms by (rule convertToCSV_texts)
  have len: \<open>length texts = length data\<close>
    using assms(2) by (simp add: list_all2_lengthD)
  then show \<open>length (map (\<lambda>ss. join '','' (map quoted ss)) texts) = length data\<close> by simp
  show \<open>\<forall>i < length data.
          map (\<lambda>ss. join '','' (map quoted ss)) texts ! i =
            join '',''
              (map (\<lambda>s. [CHR ''"''] @
                         concat (map (\<lambda>c. if c = CHR ''"'' then [c, c] else [c]) s) @
                         [CHR ''"''])
                   (texts ! i))\<close>
    using len by (simp add: quoted_def[abs_def] replace_quotes_concat)
qed

theorem csv_export_format_witness:
  \<open>example_results \<noteq> [] \<and>
   convertToCSV example_results = Inr (
     ''campaignMessage,combinedEmotionScore,clarityAndImpactScore,trendRelevanceScore,'' @
     ''steppsShareabilityScore,ctaStrengthScore,subjectiveFitScore,'' @
     ''weightedCampaignConfidenceScore,recommendation\<newline>'' @
     ''"Say ""yes"", now","4.5","4","3","4","5","4","4.15","'' @ label_strong @ ''"\<newline>'' @
     ''"Two\<newline>lines","2","2","2","2","2","2","2","'' @ label_rework @ ''"'')\<close>
proof -
  have ne: \<open>example_results \<noteq> []\<close> by (simp add: example_results_def)
  have texts: \<open>list_all2 (\<lambda>row ss. list_all2 (\<lambda>v s. ToString v = Inr s) (Object_values row) ss)
      example_results
      [[''Say "yes", now'', ''4.5'', ''4'', ''3'', ''4'', ''5'', ''4'', ''4.15'', label_strong],
       [''Two\<newline>lines'', ''2'', ''2'', ''2'', ''2'', ''2'', ''2'', ''2'', label_rework]]\<close>
    by (simp add: example_results_def Object_values_def)
  from csv_export_format[OF ne texts] obtain rows where
    csv: \<open>convertToCSV example_results =
            Inr (join ''\<newline>'' (join '','' (Object_keys (hd example_results)) # rows))\<close>
    and len: \<open>length rows = length example_results\<close>
    and row: \<open>\<forall>i < length example_results.
              rows ! i =
                join '',''
                  (map (\<lambda>s. [CHR ''"''] @
                             concat (map (\<lambda>c. if c = CHR ''"'' then [c, c] else [c]) s) @
                             [CHR ''"''])
                       ([[''Say "yes", now'', ''4.5'', ''4'', ''3'', ''4'', ''5'', ''4'', ''4.15'', label_strong],
       [''Two\<newline>lines'', ''2'', ''2'', ''2'', ''2'', ''2'', ''2'', ''2'', label_rework]] ! i))\<close>
    by blast
  from len obtain r0 r1 where rows: \<open>rows = [r0, r1]\<close>
    by (cases rows; cases \<open>tl rows\<close>; cases \<open>tl (tl rows)\<close>) (auto simp: example_results_def)
  have l2: \<open>length example_results = 2\<close> by (simp add: example_results_def)
  from row[rule_format, of 0] row[rule_format, of 1] l2 rows csv ne show ?thesis
    by (simp add: example_results_def Object_keys_def label_strong_def label_rework_def)
qed

text \<open>
  C5. On the empty result set the export throws, so there is no text to read back.
\<close>

theorem csv_roundtrip_empty_counterexample:
  \<open>(case convertToCSV [] of Inl t \<Rightarrow> None | Inr csv \<Rightarrow> parse_csv csv) = None \<and>
   convertToCSV [] \<noteq> Inr []\<close>
  by (simp add: convertToCSV_def)

text \<open>
  C5, amended. For a result set that is not empty, whose first record has no line break
  in a field name and whose values \<^verbatim>\<open>String\<close> can print, reading the exported text back
  gives the header row and, for every record in order, the \<^verbatim>\<open>String\<close> text of each of
  its values (\<open>texts\<close>), whatever quotes, commas or line breaks the values hold.
\<close>

theorem csv_roundtrip:
  assumes \<open>data \<noteq> []\<close>
    and \<open>\<forall>k \<in> set (Object_keys (hd data)). CHR ''\<newline>'' \<notin> set k\<close>
    and \<open>list_all2 (\<lambda>row ss. list_all2 (\<lambda>v s. ToString v = Inr s) (Object_values row) ss)
           data texts\<close>
  shows \<open>\<exists>csv. convertToCSV data = Inr csv \<and>
           parse_csv csv = Some (join '','' (Object_keys (hd data)), texts)\<close>
proof -
  have \<open>CHR ''\<newline>'' \<notin> set (join '','' (Object_keys (hd data)))\<close>
    using assms(2) set_join[of \<open>'',''\<close> \<open>Object_keys (hd data)\<close>] by auto
  moreover have \<open>texts \<noteq> []\<close>
    using assms(1,3) by (auto dest: list_all2_lengthD)
  ultimately show ?thesis
    using convertToCSV_texts[OF assms(1,3)]
    by (simp add: join_Cons_nonempty parse_csv_header parse_rows_all)
qed

theorem csv_roundtrip_witness:
  \<open>(case convertToCSV example_results of Inl t \<Rightarrow> None | Inr csv \<Rightarrow> parse_csv csv) =
     Some (''campaignMessage,combinedEmotionScore,clarityAndImpactScore,trendRelevanceScore,'' @
           ''steppsShareabilityScore,ctaStrengthScore,subjectiveFitScore,'' @
           ''weightedCampaignConfidenceScore,recommendation'',
           [[''Say "yes", now'', ''4.5'', ''4'', ''3'', ''4'', ''5'', ''4'', ''4.15'', label_strong],
            [''Two\<newline>lines'', ''2'', ''2'', ''2'', ''2'', ''2'', ''2'', ''2'', label_rework]])\<close>
proof -
  have \<open>example_results \<noteq> []\<close>
    and \<open>\<forall>k \<in> set (Object_keys (hd example_results)). CHR ''\<newline>'' \<notin> set k\<close>
    and \<open>list_all2 (\<lambda>row ss. list_all2 (\<lambda>v s. ToString v = Inr s) (Object_values row) ss)
      example_results
      [[''Say "yes", now'', ''4.5'', ''4'', ''3'', ''4'', ''5'', ''4'', ''4.15'', label_strong],
       [''Two\<newline>lines'', ''2'', ''2'', ''2'', ''2'', ''2'', ''2'', ''2'', label_rework]]\<close>
    by (simp_all add: example_results_def Object_keys_def Object_values_def)
  from csv_roundtrip[OF this] show ?thesis
    by (auto simp: example_results_def Object_keys_def)
qed

section \<open>The handler: validation, errors and the oracle\<close>

lemma truthy_getprop_not_nullish: "truthy (getprop b k) \<Longrightarrow> \<not> nullish b"
  by (auto simp: nullish_def)

lemma try_block_calls_falsy:
  assumes "\<not> truthy (getprop body ''campaigns'') \<or> \<not> truthy (getprop body ''keywords'') \<or>
           \<not> truthy (getprop body ''ctas'') \<or> \<not> truthy (getprop body ''objective'') \<or>
           \<not> truthy (getprop body ''details'')"
  shows "snd (try_block e body) = []"
    and "\<not> nullish body \<Longrightarrow> try_block e body =
           (Inr (respond_json 400
              (Obj [(''error'', Str ''Missing required parameters in request body.'')])), [])"
  using assms by (auto simp: try_block_def Let_def)

lemma try_block_valid:
  assumes "truthy (getprop body ''campaigns'')" "truthy (getprop body ''keywords'')"
    "truthy (getprop body ''ctas'')" "truthy (getprop body ''objective'')"
    "truthy (getprop body ''details'')"
  shows "try_block e body =
     (case prompt (getprop body ''campaigns'') (getprop body ''keywords'') (getprop body ''ctas'')
             (getprop body ''objective'') (getprop body ''details'') of
               Inl t \<Rightarrow> (Inl t, [])
             | Inr p \<Rightarrow>
                 (case generateContent e p of
                    Inl t \<Rightarrow> (Inl t, [p])
                  | Inr None \<Rightarrow> (Inl (TypeError (Read_property Undefined ''trim'')), [p])
                  | Inr (Some responseText) \<Rightarrow>
                      (case JSON_parse e (trim responseText) of
                         Inl t \<Rightarrow> (Inl t, [p])
                       | Inr parsedJson \<Rightarrow>
                           if truthy parsedJson \<and> truthy (getprop parsedJson ''results'')
                           then (Inr (respond_json 200 (getprop parsedJson ''results'')), [p])
                           else (Inl (Error_obj ''Invalid response structure from Gemini API.''),
                                 [p]))))"
  using assms truthy_getprop_not_nullish[OF assms(1)]
  by (simp add: try_block_def Let_def)

lemma handler_calls: "oracle_calls (handler e req) =
   (if req_method req = ''POST'' \<and> configured e then snd (try_block e (req_body req)) else [])"
  by (auto simp: handler_def split: prod.splits sum.splits)

lemma handler_reply_try:
  "req_method req = ''POST'' \<Longrightarrow> configured e \<Longrightarrow>
   reply (handler e req) =
     (case fst (try_block e (req_body req)) of
        Inr r \<Rightarrow> r
      | Inl t \<Rightarrow> respond_json 500
                      (Obj [(''error'', Str ''Failed to analyze campaigns.''),
                            (''details'', Str (errorMessage e t))]))"
  by (auto simp: handler_def split: prod.splits sum.splits)




lemma prompt_Inr:
  "getOptionalDetailsInstructions details = Inr d \<Longrightarrow> cta_texts ctas = Inr texts \<Longrightarrow>
   prompt campaigns keywords ctas objective details =
     Inr (prompt_opening @ getMarketingObjectiveInstructions objective @
          prompt_separator @ d @
          prompt_campaigns_heading @ interpolate (JSON_stringify campaigns) @
          prompt_keywords_heading @ interpolate (JSON_stringify keywords) @
          prompt_ctas_heading @ interpolate (JSON_stringify (Arr texts)) @
          prompt_criteria @ prompt_final_calculations @ prompt_output_format)"
  by (simp add: prompt_def)

lemma prompt_Inr_iff:
  "prompt campaigns keywords ctas objective details = Inr p \<longleftrightarrow>
   (\<exists>d texts. getOptionalDetailsInstructions details = Inr d \<and> cta_texts ctas = Inr texts \<and>
     p = prompt_opening @ getMarketingObjectiveInstructions objective @
          prompt_separator @ d @
          prompt_campaigns_heading @ interpolate (JSON_stringify campaigns) @
          prompt_keywords_heading @ interpolate (JSON_stringify keywords) @
          prompt_ctas_heading @ interpolate (JSON_stringify (Arr texts)) @
          prompt_criteria @ prompt_final_calculations @ prompt_output_format)"
  by (auto simp: prompt_def split: sum.splits)

lemma prompt_ends_with_rule:
  assumes "prompt campaigns keywords ctas objective details = Inr p"
  shows "\<exists>before. p = before @ prompt_final_calculations @ prompt_output_format"
proof -
  from assms obtain d texts where
    "p = prompt_opening @ getMarketingObjectiveInstructions objective @
          prompt_separator @ d @
          prompt_campaigns_heading @ interpolate (JSON_stringify campaigns) @
          prompt_keywords_heading @ interpolate (JSON_stringify keywords) @
          prompt_ctas_heading @ interpolate (JSON_stringify (Arr texts)) @
          prompt_criteria @ prompt_final_calculations @ prompt_output_format"
    unfolding prompt_Inr_iff by blast
  then have "p = (prompt_opening @ getMarketingObjectiveInstructions objective @
          prompt_separator @ d @
          prompt_campaigns_heading @ interpolate (JSON_stringify campaigns) @
          prompt_keywords_heading @ interpolate (JSON_stringify keywords) @
          prompt_ctas_heading @ interpolate (JSON_stringify (Arr texts)) @
          prompt_criteria) @ prompt_final_calculations @ prompt_output_format"
    by simp
  then show ?thesis by (rule exI)
qed

lemma details_of_empty_object: "getOptionalDetailsInstructions (Obj []) = Inr []"
  by (simp add: getOptionalDetailsInstructions_def detail_line_def getAudienceText_def
        getBrandToneText_def)

lemma map_CTA_Text_ok:
  "\<forall>c \<in> set cs. \<not> nullish c \<Longrightarrow> map_CTA_Text cs = Inr (map (\<lambda>c. getprop c ''CTA Text'') cs)"
  by (induction cs) simp_all

lemma prompt_oracle_call:
  assumes "req_method req = ''POST''" "configured e"
    and "truthy (getprop (req_body req) ''campaigns'')"
    and "truthy (getprop (req_body req) ''keywords'')"
    and "truthy (getprop (req_body req) ''ctas'')"
    and "truthy (getprop (req_body req) ''objective'')"
    and "truthy (getprop (req_body req) ''details'')"
    and "prompt (getprop (req_body req) ''campaigns'') (getprop (req_body req) ''keywords'')
           (getprop (req_body req) ''ctas'') (getprop (req_body req) ''objective'')
           (getprop (req_body req) ''details'') = Inr p"
  shows "oracle_calls (handler e req) = [p]"
  using assms(1,2,8)
  by (simp add: handler_calls try_block_valid[OF assms(3-7)] split: sum.splits option.splits)

text \<open>
  C4, amended. \<^verbatim>\<open>getMarketingObjectiveInstructions\<close> returns the neutral
  balanced-weighting text for every value that is not one of the four strings, the
  absent objective \<^verbatim>\<open>undefined\<close> included, and it never fails. For a POST to a
  configured handler whose objective is truthy and not one of the four, with the other
  fields present, the optional details printing without an error (to \<open>d\<close>) and the calls
  to action an array without \<^verbatim>\<open>null\<close>, the prompt is sent to the oracle and carries the
  neutral text right after its opening. A POST to a configured handler whose body is a
  JSON object with the objective absent, or falsy in another way, is answered with the
  400 validation error and no oracle call.
\<close>

theorem unrecognised_objective_default:
  assumes "objective \<notin> {Str ''awareness'', Str ''consideration'', Str ''sales'', Str ''loyalty''}"
  shows "getMarketingObjectiveInstructions objective = default_instructions \<and>
         (req_method req = ''POST'' \<and> configured e \<and>
          getprop (req_body req) ''objective'' = objective \<and> truthy objective \<and>
          truthy (getprop (req_body req) ''campaigns'') \<and>
          truthy (getprop (req_body req) ''keywords'') \<and>
          truthy (getprop (req_body req) ''details'') \<and>
          getOptionalDetailsInstructions (getprop (req_body req) ''details'') = Inr d \<and>
          getprop (req_body req) ''ctas'' = Arr cs \<and> (\<forall>c \<in> set cs. \<not> nullish c) \<longrightarrow>
            (\<exists>rest. oracle_calls (handler e req) = [prompt_opening @ default_instructions @ rest])) \<and>
         (req_method req' = ''POST'' \<and> configured e \<and> req_body req' = Obj kvs \<and>
          \<not> truthy (getprop (Obj kvs) ''objective'') \<longrightarrow>
            handler e req' =
              \<lparr>reply = respond_json 400
                         (Obj [(''error'', Str ''Missing required parameters in request body.'')]),
               oracle_calls = []\<rparr>)"
proof (intro conjI impI)
  show d: "getMarketingObjectiveInstructions objective = default_instructions"
    using assms by (simp add: getMarketingObjectiveInstructions_def)
next
  assume a: "req_method req = ''POST'' \<and> configured e \<and>
          getprop (req_body req) ''objective'' = objective \<and> truthy objective \<and>
          truthy (getprop (req_body req) ''campaigns'') \<and>
          truthy (getprop (req_body req) ''keywords'') \<and>
          truthy (getprop (req_body req) ''details'') \<and>
          getOptionalDetailsInstructions (getprop (req_body req) ''details'') = Inr d \<and>
          getprop (req_body req) ''ctas'' = Arr cs \<and> (\<forall>c \<in> set cs. \<not> nullish c)"
  have dflt: "getMarketingObjectiveInstructions objective = default_instructions"
    using assms by (simp add: getMarketingObjectiveInstructions_def)
  from a have ctas: "getprop (req_body req) ''ctas'' = Arr cs"
    and obj: "getprop (req_body req) ''objective'' = objective"
    and det: "getOptionalDetailsInstructions (getprop (req_body req) ''details'') = Inr d"
    by simp_all
  have texts: "cta_texts (Arr cs) = Inr (map (\<lambda>c. getprop c ''CTA Text'') cs)"
    using a by (simp add: cta_texts_def map_CTA_Text_ok)
  have "oracle_calls (handler e req) =
     [prompt_opening @ getMarketingObjectiveInstructions objective @
          prompt_separator @ d @
          prompt_campaigns_heading @ interpolate (JSON_stringify (getprop (req_body req) ''campaigns'')) @
          prompt_keywords_heading @ interpolate (JSON_stringify (getprop (req_body req) ''keywords'')) @
          prompt_ctas_heading @ interpolate (JSON_stringify (Arr (map (\<lambda>c. getprop c ''CTA Text'') cs))) @
          prompt_criteria @ prompt_final_calculations @ prompt_output_format]"
  proof (rule prompt_oracle_call)
    show "prompt (getprop (req_body req) ''campaigns'') (getprop (req_body req) ''keywords'')
           (getprop (req_body req) ''ctas'') (getprop (req_body req) ''objective'')
           (getprop (req_body req) ''details'') =
          Inr (prompt_opening @ getMarketingObjectiveInstructions objective @
          prompt_separator @ d @
          prompt_campaigns_heading @ interpolate (JSON_stringify (getprop (req_body req) ''campaigns'')) @
          prompt_keywords_heading @ interpolate (JSON_stringify (getprop (req_body req) ''keywords'')) @
          prompt_ctas_heading @ interpolate (JSON_stringify (Arr (map (\<lambda>c. getprop c ''CTA Text'') cs))) @
          prompt_criteria @ prompt_final_calculations @ prompt_output_format)"
      unfolding ctas obj by (rule prompt_Inr[OF det texts])
  qed (use a in simp_all)
  then show "\<exists>rest. oracle_calls (handler e req) = [prompt_opening @ default_instructions @ rest]"
    unfolding dflt by blast
next
  assume b: "req_method req' = ''POST'' \<and> configured e \<and> req_body req' = Obj kvs \<and>
          \<not> truthy (getprop (Obj kvs) ''objective'')"
  then have "try_block e (req_body req') =
           (Inr (respond_json 400
              (Obj [(''error'', Str ''Missing required parameters in request body.'')])), [])"
    by (intro try_block_calls_falsy(2)) (simp_all add: nullish_def)
  with b show "handler e req' =
              \<lparr>reply = respond_json 400
                         (Obj [(''error'', Str ''Missing required parameters in request body.'')]),
               oracle_calls = []\<rparr>"
    by (simp add: handler_def)
qed

theorem unrecognised_objective_default_witness:
  "getMarketingObjectiveInstructions (Str ''virality'') = default_instructions \<and>
   getMarketingObjectiveInstructions Undefined = default_instructions \<and>
   (\<exists>rest. oracle_calls (handler env_no_results (post body_unknown_objective)) =
       [prompt_opening @ default_instructions @ rest]) \<and>
   handler env_no_results (post body_without_objective) =
     \<lparr>reply = respond_json 400
                (Obj [(''error'', Str ''Missing required parameters in request body.'')]),
      oracle_calls = []\<rparr>"
proof -
  have v: "Str ''virality'' \<notin> {Str ''awareness'', Str ''consideration'', Str ''sales'', Str ''loyalty''}"
    and u: "Undefined \<notin> {Str ''awareness'', Str ''consideration'', Str ''sales'', Str ''loyalty''}"
    by simp_all
  from unrecognised_objective_default[OF v,
          where req = "post body_unknown_objective" and e = env_no_results and d = "[]"
            and cs = "[Obj [(''CTA Text'', Str ''Shop'')]]"
            and req' = "post body_without_objective"
            and kvs = "[(''campaigns'', Arr [Str ''Buy now'']),
                        (''keywords'', Arr [Str ''sale'']),
                        (''ctas'', Arr [Obj [(''CTA Text'', Str ''Shop''), (''Type Score'', Num ''3'')]]),
                        (''details'', Obj [])]"]
       unrecognised_objective_default[OF u]
  show ?thesis
    by (simp add: post_def body_unknown_objective_def body_without_objective_def configured_def
          env_no_results_def nullish_def details_of_empty_object)
qed

text \<open>
  C4 as stated fails: a request whose objective is absent does fail. The validation of
  the handler answers it with 400 before any prompt is assembled.
\<close>
theorem absent_objective_counterexample:
  "handler env_no_results (post body_without_objective) =
     \<lparr>reply = respond_json 400
                (Obj [(''error'', Str ''Missing required parameters in request body.'')]),
      oracle_calls = []\<rparr>"
  by (simp add: handler_def post_def configured_def env_no_results_def
      try_block_def nullish_def body_without_objective_def)


text \<open>
  C7, amended. A request with a method other than POST is answered with 405 and the
  oracle is not invoked. A POST without a configured credential is answered with 500 and
  a JSON body that holds an \<^verbatim>\<open>error\<close> field only. For a POST to a configured handler
  whose five fields are present and whose prompt \<open>p\<close> is assembled, every failure of
  the oracle is answered with 500 and a JSON body that holds the \<^verbatim>\<open>error\<close> field
  and a \<^verbatim>\<open>details\<close> field: the message of what the call rejected with; the engine's
  message for reading \<^verbatim>\<open>trim\<close> of \<^verbatim>\<open>undefined\<close> when the answer has no text; the
  message of what \<^verbatim>\<open>JSON.parse\<close> threw; and the text about the invalid response
  structure when what was parsed is falsy or has no truthy \<^verbatim>\<open>results\<close>.
\<close>

theorem error_responses:
  "(req_method req \<noteq> ''POST'' \<longrightarrow>
      status (reply (handler e req)) = 405 \<and> oracle_calls (handler e req) = []) \<and>
   (req_method req = ''POST'' \<and> \<not> configured e \<longrightarrow>
      reply (handler e req) =
        respond_json 500
          (Obj [(''error'', Str ''API_KEY environment variable not set on the server.'')])) \<and>
   (req_method req = ''POST'' \<and> configured e \<and>
    truthy (getprop (req_body req) ''campaigns'') \<and> truthy (getprop (req_body req) ''keywords'') \<and>
    truthy (getprop (req_body req) ''ctas'') \<and> truthy (getprop (req_body req) ''objective'') \<and>
    truthy (getprop (req_body req) ''details'') \<and>
    prompt (getprop (req_body req) ''campaigns'') (getprop (req_body req) ''keywords'')
           (getprop (req_body req) ''ctas'') (getprop (req_body req) ''objective'')
           (getprop (req_body req) ''details'') = Inr p \<longrightarrow>
      oracle_calls (handler e req) = [p] \<and>
      (\<forall>t. generateContent e p = Inl t \<longrightarrow>
         reply (handler e req) =
           respond_json 500
             (Obj [(''error'', Str ''Failed to analyze campaigns.''),
                   (''details'', Str (errorMessage e t))])) \<and>
      (generateContent e p = Inr None \<longrightarrow>
         reply (handler e req) =
           respond_json 500
             (Obj [(''error'', Str ''Failed to analyze campaigns.''),
                   (''details'', Str (engine_message e (Read_property Undefined ''trim'')))])) \<and>
      (\<forall>responseText t. generateContent e p = Inr (Some responseText) \<and>
           JSON_parse e (trim responseText) = Inl t \<longrightarrow>
         reply (handler e req) =
           respond_json 500
             (Obj [(''error'', Str ''Failed to analyze campaigns.''),
                   (''details'', Str (errorMessage e t))])) \<and>
      (\<forall>responseText parsedJson. generateContent e p = Inr (Some responseText) \<and>
           JSON_parse e (trim responseText) = Inr parsedJson \<and>
           \<not> (truthy parsedJson \<and> truthy (getprop parsedJson ''results'')) \<longrightarrow>
         reply (handler e req) =
           respond_json 500
             (Obj [(''error'', Str ''Failed to analyze campaigns.''),
                   (''details'', Str ''Invalid response structure from Gemini API.'')])))"
proof (intro conjI impI allI)
  assume "req_method req \<noteq> ''POST''"
  then show "status (reply (handler e req)) = 405" and "oracle_calls (handler e req) = []"
    by (simp_all add: handler_def)
next
  assume "req_method req = ''POST'' \<and> \<not> configured e"
  then show "reply (handler e req) =
        respond_json 500
          (Obj [(''error'', Str ''API_KEY environment variable not set on the server.'')])"
    by (simp add: handler_def)
next
  assume a: "req_method req = ''POST'' \<and> configured e \<and>
    truthy (getprop (req_body req) ''campaigns'') \<and> truthy (getprop (req_body req) ''keywords'') \<and>
    truthy (getprop (req_body req) ''ctas'') \<and> truthy (getprop (req_body req) ''objective'') \<and>
    truthy (getprop (req_body req) ''details'') \<and>
    prompt (getprop (req_body req) ''campaigns'') (getprop (req_body req) ''keywords'')
           (getprop (req_body req) ''ctas'') (getprop (req_body req) ''objective'')
           (getprop (req_body req) ''details'') = Inr p"
  then have m: "req_method req = ''POST''" and c: "configured e"
    and valid: "truthy (getprop (req_body req) ''campaigns'')"
    "truthy (getprop (req_body req) ''keywords'')" "truthy (getprop (req_body req) ''ctas'')"
    "truthy (getprop (req_body req) ''objective'')" "truthy (getprop (req_body req) ''details'')"
    and p: "prompt (getprop (req_body req) ''campaigns'') (getprop (req_body req) ''keywords'')
           (getprop (req_body req) ''ctas'') (getprop (req_body req) ''objective'')
           (getprop (req_body req) ''details'') = Inr p"
    by simp_all
  note r = handler_reply_try[OF m c]
  note t = try_block_valid[OF valid, of e]
  show "oracle_calls (handler e req) = [p]"
    using m c valid p by (rule prompt_oracle_call)
  { fix t'
    assume "generateContent e p = Inl t'"
    then show "reply (handler e req) =
           respond_json 500
             (Obj [(''error'', Str ''Failed to analyze campaigns.''),
                   (''details'', Str (errorMessage e t'))])"
      by (simp add: r t p) }
  { assume "generateContent e p = Inr None"
    then show "reply (handler e req) =
           respond_json 500
             (Obj [(''error'', Str ''Failed to analyze campaigns.''),
                   (''details'', Str (engine_message e (Read_property Undefined ''trim'')))])"
      by (simp add: r t p errorMessage_def) }
  { fix responseText t'
    assume "generateContent e p = Inr (Some responseText) \<and>
           JSON_parse e (trim responseText) = Inl t'"
    then show "reply (handler e req) =
           respond_json 500
             (Obj [(''error'', Str ''Failed to analyze campaigns.''),
                   (''details'', Str (errorMessage e t'))])"
      by (simp add: r t p) }
  { fix responseText parsedJson
    assume "generateContent e p = Inr (Some responseText) \<and>
           JSON_parse e (trim responseText) = Inr parsedJson \<and>
           \<not> (truthy parsedJson \<and> truthy (getprop parsedJson ''results''))"
    then show "reply (handler e req) =
           respond_json 500
             (Obj [(''error'', Str ''Failed to analyze campaigns.''),
                   (''details'', Str ''Invalid response structure from Gemini API.'')])"
      by (auto simp: r t p errorMessage_def) }
qed

lemma example_prompt:
  "\<exists>p. prompt (Arr [Str ''Buy now'']) (Arr [Str ''sale''])
          (Arr [Obj [(''CTA Text'', Str ''Shop''), (''Type Score'', Num ''3'')]])
          (Str ''sales'') (Obj []) = Inr p"
  by (simp add: prompt_def cta_texts_def nullish_def details_of_empty_object)

theorem error_responses_witness:
  "status (reply (handler env_no_results \<lparr>req_method = ''GET'', req_body = example_body\<rparr>)) = 405 \<and>
   reply (handler env_unconfigured (post example_body)) =
     respond_json 500
       (Obj [(''error'', Str ''API_KEY environment variable not set on the server.'')]) \<and>
   reply (handler env_unreachable (post example_body)) =
     respond_json 500
       (Obj [(''error'', Str ''Failed to analyze campaigns.''), (''details'', Str ''fetch failed'')]) \<and>
   reply (handler env_without_text (post example_body)) =
     respond_json 500
       (Obj [(''error'', Str ''Failed to analyze campaigns.''),
             (''details'', Str ''Cannot read properties of undefined (reading trim)'')]) \<and>
   reply (handler env_unparsable (post example_body)) =
     respond_json 500
       (Obj [(''error'', Str ''Failed to analyze campaigns.''),
             (''details'', Str ''Unexpected token'')]) \<and>
   reply (handler env_without_results (post example_body)) =
     respond_json 500
       (Obj [(''error'', Str ''Failed to analyze campaigns.''),
             (''details'', Str ''Invalid response structure from Gemini API.'')])"
proof -
  obtain p where p: "prompt (Arr [Str ''Buy now'']) (Arr [Str ''sale''])
          (Arr [Obj [(''CTA Text'', Str ''Shop''), (''Type Score'', Num ''3'')]])
          (Str ''sales'') (Obj []) = Inr p"
    using example_prompt by blast
  have 1: "status (reply (handler env_no_results \<lparr>req_method = ''GET'', req_body = example_body\<rparr>)) = 405"
    using error_responses[of "\<lparr>req_method = ''GET'', req_body = example_body\<rparr>" env_no_results]
    by simp
  have 2: "reply (handler env_unconfigured (post example_body)) =
     respond_json 500
       (Obj [(''error'', Str ''API_KEY environment variable not set on the server.'')])"
    using error_responses[of "post example_body" env_unconfigured]
    by (simp add: post_def configured_def env_unconfigured_def)
  have 3: "reply (handler env_unreachable (post example_body)) =
     respond_json 500
       (Obj [(''error'', Str ''Failed to analyze campaigns.''), (''details'', Str ''fetch failed'')])"
    using error_responses[of "post example_body" env_unreachable p] p
    by (simp add: post_def example_body_def configured_def env_unreachable_def
          oracle_unreachable_def errorMessage_def)
  have 4: "reply (handler env_without_text (post example_body)) =
     respond_json 500
       (Obj [(''error'', Str ''Failed to analyze campaigns.''),
             (''details'', Str ''Cannot read properties of undefined (reading trim)'')])"
    using error_responses[of "post example_body" env_without_text p] p
    by (simp add: post_def example_body_def configured_def env_without_text_def
          oracle_without_text_def example_messages_def nullish_name_def)
  have 5: "reply (handler env_unparsable (post example_body)) =
     respond_json 500
       (Obj [(''error'', Str ''Failed to analyze campaigns.''),
             (''details'', Str ''Unexpected token'')])"
    using error_responses[of "post example_body" env_unparsable p] p
    by (simp add: post_def example_body_def configured_def env_unparsable_def
          oracle_unparsable_def example_JSON_parse_def trim_def WhiteSpace_def
          no_results_text_def miscalculated_text_def errorMessage_def)
  have 6: "reply (handler env_without_results (post example_body)) =
     respond_json 500
       (Obj [(''error'', Str ''Failed to analyze campaigns.''),
             (''details'', Str ''Invalid response structure from Gemini API.'')])"
    using error_responses[of "post example_body" env_without_results p] p
    by (simp add: post_def example_body_def configured_def env_without_results_def
          oracle_without_results_def example_JSON_parse_def trim_def WhiteSpace_def
          no_results_text_def)
  from 1 2 3 4 5 6 show ?thesis by simp
qed

text \<open>
  C7 as stated fails: with the credential missing the 500 response has an \<^verbatim>\<open>error\<close>
  field and no \<^verbatim>\<open>details\<close> field.
\<close>
theorem config_failure_counterexample:
  "reply (handler env_unconfigured (post example_body)) =
     \<lparr>status = 500, headers = [],
      payload = Json (Obj [(''error'', Str ''API_KEY environment variable not set on the server.'')])\<rparr> \<and>
   getprop (Obj [(''error'', Str ''API_KEY environment variable not set on the server.'')]) ''details''
     = Undefined"
  by (simp add: handler_def post_def configured_def env_unconfigured_def respond_json_def)

lemma map_CTA_Text_agree:
  "list_all2 (\<lambda>c d. \<not> nullish c \<and> \<not> nullish d \<and> getprop c ''CTA Text'' = getprop d ''CTA Text'') cs ds
   \<Longrightarrow> map_CTA_Text cs = map_CTA_Text ds"
  by (induction cs ds rule: list_all2_induct) (auto split: sum.splits)

text \<open>
  C8. Two request bodies that agree on \<^verbatim>\<open>campaigns\<close>, \<^verbatim>\<open>keywords\<close>, \<^verbatim>\<open>objective\<close>
  and \<^verbatim>\<open>details\<close>, and whose \<^verbatim>\<open>ctas\<close> are arrays of the same length that agree, item
  by item, on the \<^verbatim>\<open>CTA Text\<close> field, give the same prompt, whatever the other fields of
  the calls to action are; the whole run of the handler is the same too.
\<close>
theorem cta_noninterference:
  assumes "getprop b1 ''campaigns'' = getprop b2 ''campaigns''"
    and "getprop b1 ''keywords'' = getprop b2 ''keywords''"
    and "getprop b1 ''objective'' = getprop b2 ''objective''"
    and "getprop b1 ''details'' = getprop b2 ''details''"
    and "getprop b1 ''ctas'' = Arr cs1" and "getprop b2 ''ctas'' = Arr cs2"
    and "list_all2 (\<lambda>c d. \<not> nullish c \<and> \<not> nullish d \<and>
                          getprop c ''CTA Text'' = getprop d ''CTA Text'') cs1 cs2"
  shows "prompt (getprop b1 ''campaigns'') (getprop b1 ''keywords'') (getprop b1 ''ctas'')
           (getprop b1 ''objective'') (getprop b1 ''details'') =
         prompt (getprop b2 ''campaigns'') (getprop b2 ''keywords'') (getprop b2 ''ctas'')
           (getprop b2 ''objective'') (getprop b2 ''details'') \<and>
         handler e \<lparr>req_method = m, req_body = b1\<rparr> = handler e \<lparr>req_method = m, req_body = b2\<rparr>"
proof -
  have texts: "cta_texts (getprop b1 ''ctas'') = cta_texts (getprop b2 ''ctas'')"
    using assms(5-7) by (simp add: cta_texts_def map_CTA_Text_agree)
  have P: "prompt (getprop b1 ''campaigns'') (getprop b1 ''keywords'') (getprop b1 ''ctas'')
           (getprop b1 ''objective'') (getprop b1 ''details'') =
         prompt (getprop b2 ''campaigns'') (getprop b2 ''keywords'') (getprop b2 ''ctas'')
           (getprop b2 ''objective'') (getprop b2 ''details'')"
    unfolding prompt_def texts assms(1-4) ..
  have n: "\<not> nullish b1" "\<not> nullish b2"
    using assms(5,6) by (auto simp: nullish_def)
  have T: "truthy (getprop b1 ''ctas'')" "truthy (getprop b2 ''ctas'')"
    using assms(5,6) by simp_all
  have "try_block e b1 = try_block e b2"
    using n unfolding try_block_def Let_def P
    by (simp only: assms(1-4) T if_False simp_thms)
  then show ?thesis using P by (simp add: handler_def)
qed

theorem cta_noninterference_witness:
  "example_body \<noteq> body_other_cta_fields \<and>
   prompt (getprop example_body ''campaigns'') (getprop example_body ''keywords'')
          (getprop example_body ''ctas'') (getprop example_body ''objective'')
          (getprop example_body ''details'') =
   prompt (getprop body_other_cta_fields ''campaigns'') (getprop body_other_cta_fields ''keywords'')
          (getprop body_other_cta_fields ''ctas'') (getprop body_other_cta_fields ''objective'')
          (getprop body_other_cta_fields ''details'') \<and>
   handler env_no_results \<lparr>req_method = ''POST'', req_body = example_body\<rparr> =
   handler env_no_results \<lparr>req_method = ''POST'', req_body = body_other_cta_fields\<rparr>"
proof -
  have "example_body \<noteq> body_other_cta_fields"
    by (simp add: example_body_def body_other_cta_fields_def)
  moreover have "list_all2 (\<lambda>c d. \<not> nullish c \<and> \<not> nullish d \<and>
                          getprop c ''CTA Text'' = getprop d ''CTA Text'')
       [Obj [(''CTA Text'', Str ''Shop''), (''Type Score'', Num ''3'')]]
       [Obj [(''Tone Score'', Num ''1''), (''CTA Text'', Str ''Shop''), (''note'', Str ''draft'')]]"
    by (simp add: nullish_def)
  from cta_noninterference[of example_body body_other_cta_fields _ _ env_no_results "''POST''", OF _ _ _ _ _ _ this]
  have "prompt (getprop example_body ''campaigns'') (getprop example_body ''keywords'')
          (getprop example_body ''ctas'') (getprop example_body ''objective'')
          (getprop example_body ''details'') =
   prompt (getprop body_other_cta_fields ''campaigns'') (getprop body_other_cta_fields ''keywords'')
          (getprop body_other_cta_fields ''ctas'') (getprop body_other_cta_fields ''objective'')
          (getprop body_other_cta_fields ''details'') \<and>
   handler env_no_results \<lparr>req_method = ''POST'', req_body = example_body\<rparr> =
   handler env_no_results \<lparr>req_method = ''POST'', req_body = body_other_cta_fields\<rparr>"
    by (simp add: example_body_def body_other_cta_fields_def)
  ultimately show ?thesis by blast
qed


text \<open>
  C10. The validation tests truthiness. A POST to a configured handler whose
  \<^verbatim>\<open>campaigns\<close>, \<^verbatim>\<open>keywords\<close> and \<^verbatim>\<open>ctas\<close> are arrays, empty or not, and whose objective
  and details are truthy, passes the validation: the answer is not the 400 validation
  error, and when the optional details print without an error and no call to action is
  \<^verbatim>\<open>null\<close> the prompt is assembled and sent to the oracle. A POST whose body is a JSON
  object with the objective present and the empty string is answered with the 400
  validation error and no oracle call.
\<close>

theorem validation_tests_falsiness:
  assumes "req_method req = ''POST''" and "configured e"
    and "getprop (req_body req) ''campaigns'' = Arr cs"
    and "getprop (req_body req) ''keywords'' = Arr ks"
    and "getprop (req_body req) ''ctas'' = Arr ts"
    and "truthy (getprop (req_body req) ''objective'')"
    and "truthy (getprop (req_body req) ''details'')"
    and "req_method req' = ''POST''" and "req_body req' = Obj kvs"
    and "map_of kvs ''objective'' = Some (Str [])"
  shows "status (reply (handler e req)) \<noteq> 400 \<and>
         (getOptionalDetailsInstructions (getprop (req_body req) ''details'') = Inr d \<and>
          (\<forall>c \<in> set ts. \<not> nullish c) \<longrightarrow>
            (\<exists>p. prompt (Arr cs) (Arr ks) (Arr ts) (getprop (req_body req) ''objective'')
                    (getprop (req_body req) ''details'') = Inr p \<and>
                  oracle_calls (handler e req) = [p])) \<and>
         handler e req' =
           \<lparr>reply = respond_json 400
                      (Obj [(''error'', Str ''Missing required parameters in request body.'')]),
            oracle_calls = []\<rparr>"
proof (intro conjI impI)
  have valid: "truthy (getprop (req_body req) ''campaigns'')"
    "truthy (getprop (req_body req) ''keywords'')" "truthy (getprop (req_body req) ''ctas'')"
    using assms(3-5) by simp_all
  show "status (reply (handler e req)) \<noteq> 400"
    by (simp add: handler_reply_try[OF assms(1,2)] try_block_valid[OF valid assms(6,7)]
          respond_json_def split: sum.splits option.splits)
  { assume a: "getOptionalDetailsInstructions (getprop (req_body req) ''details'') = Inr d \<and>
          (\<forall>c \<in> set ts. \<not> nullish c)"
    then have texts: "cta_texts (Arr ts) = Inr (map (\<lambda>c. getprop c ''CTA Text'') ts)"
      by (simp add: cta_texts_def map_CTA_Text_ok)
    from a have det: "getOptionalDetailsInstructions (getprop (req_body req) ''details'') = Inr d"
      by simp
    from prompt_Inr[OF det texts] obtain p where
      p: "prompt (Arr cs) (Arr ks) (Arr ts) (getprop (req_body req) ''objective'')
                  (getprop (req_body req) ''details'') = Inr p"
      by blast
    have "oracle_calls (handler e req) = [p]"
      using p assms(3-5)
      by (intro prompt_oracle_call assms(1,2,6,7) valid) simp
    with p show "\<exists>p. prompt (Arr cs) (Arr ks) (Arr ts) (getprop (req_body req) ''objective'')
                  (getprop (req_body req) ''details'') = Inr p \<and>
                oracle_calls (handler e req) = [p]"
      by blast }
  have "try_block e (req_body req') =
           (Inr (respond_json 400
              (Obj [(''error'', Str ''Missing required parameters in request body.'')])), [])"
    using assms(9,10) by (intro try_block_calls_falsy(2)) (simp_all add: nullish_def)
  then show "handler e req' =
           \<lparr>reply = respond_json 400
                      (Obj [(''error'', Str ''Missing required parameters in request body.'')]),
            oracle_calls = []\<rparr>"
    using assms(8,2) by (simp add: handler_def)
qed

theorem validation_tests_falsiness_witness:
  "length (oracle_calls (handler env_no_results (post body_empty_arrays))) = 1 \<and>
   status (reply (handler env_no_results (post body_empty_arrays))) \<noteq> 400 \<and>
   handler env_no_results (post body_empty_objective) =
     \<lparr>reply = respond_json 400
                (Obj [(''error'', Str ''Missing required parameters in request body.'')]),
      oracle_calls = []\<rparr>"
proof -
  have b: "req_body (post body_empty_objective) =
     Obj [(''campaigns'', Arr [Str ''Buy now'']),
          (''keywords'', Arr [Str ''sale'']),
          (''ctas'', Arr [Obj [(''CTA Text'', Str ''Shop'')]]),
          (''objective'', Str []),
          (''details'', Obj [])]"
    by (simp add: post_def body_empty_objective_def)
  from validation_tests_falsiness[where req = "post body_empty_arrays" and e = env_no_results
          and cs = "[]" and ks = "[]" and ts = "[]" and d = "[]"
          and req' = "post body_empty_objective", OF _ _ _ _ _ _ _ _ b]
  show ?thesis
    by (auto simp: post_def body_empty_arrays_def configured_def
          env_no_results_def details_of_empty_object)
qed

text \<open>
  C2, amended. For a valid request whose oracle call answers with a text that parses to
  an object with an array under \<^verbatim>\<open>results\<close>, the handler returns exactly that array with
  status 200: the records of the oracle, as many as the oracle gave and in its order.
  The handler does not compare them with the submitted campaigns; it asks the oracle,
  in the last part of the prompt, for one object for each campaign message.
\<close>
theorem results_passed_through:
  assumes "req_method req = ''POST''" and "configured e"
    and "truthy (getprop (req_body req) ''campaigns'')"
    and "truthy (getprop (req_body req) ''keywords'')"
    and "truthy (getprop (req_body req) ''ctas'')"
    and "truthy (getprop (req_body req) ''objective'')"
    and "truthy (getprop (req_body req) ''details'')"
    and "prompt (getprop (req_body req) ''campaigns'') (getprop (req_body req) ''keywords'')
           (getprop (req_body req) ''ctas'') (getprop (req_body req) ''objective'')
           (getprop (req_body req) ''details'') = Inr p"
    and "generateContent e p = Inr (Some responseText)"
    and "JSON_parse e (trim responseText) = Inr parsedJson"
    and "getprop parsedJson ''results'' = Arr records"
  shows "handler e req = \<lparr>reply = respond_json 200 (Arr records), oracle_calls = [p]\<rparr> \<and>
         (\<exists>before. p = before @ prompt_output_format)"
proof
  have "truthy parsedJson" using assms(11) by (cases parsedJson) simp_all
  then have "try_block e (req_body req) = (Inr (respond_json 200 (Arr records)), [p])"
    using assms(8-11) by (simp add: try_block_valid[OF assms(3-7)])
  then show "handler e req = \<lparr>reply = respond_json 200 (Arr records), oracle_calls = [p]\<rparr>"
    using assms(1,2) by (simp add: handler_def)
  from prompt_ends_with_rule[OF assms(8)] obtain before where
    "p = before @ prompt_final_calculations @ prompt_output_format" by blast
  then have "p = (before @ prompt_final_calculations) @ prompt_output_format" by simp
  then show "\<exists>before. p = before @ prompt_output_format" by (rule exI)
qed

lemma trim_no_results: "trim (CHR '' '' # no_results_text @ ''\<newline>'') = no_results_text"
  by (simp add: trim_def no_results_text_def WhiteSpace_def)

lemma trim_miscalculated: "trim miscalculated_text = miscalculated_text"
  by (simp add: trim_def miscalculated_text_def WhiteSpace_def label_rework_def)

theorem results_passed_through_witness:
  "reply (handler env_miscalculating (post example_body)) =
     respond_json 200 (Arr [miscalculated_record]) \<and>
   length (oracle_calls (handler env_miscalculating (post example_body))) = 1"
proof -
  obtain p where p: "prompt (Arr [Str ''Buy now'']) (Arr [Str ''sale''])
          (Arr [Obj [(''CTA Text'', Str ''Shop''), (''Type Score'', Num ''3'')]])
          (Str ''sales'') (Obj []) = Inr p"
    using example_prompt by blast
  have "miscalculated_text \<noteq> no_results_text" and "miscalculated_text \<noteq> ''{}''"
    by (simp_all add: miscalculated_text_def no_results_text_def)
  then have "handler env_miscalculating (post example_body) =
    \<lparr>reply = respond_json 200 (Arr [miscalculated_record]), oracle_calls = [p]\<rparr>"
    using results_passed_through[of "post example_body" env_miscalculating p miscalculated_text
       "Obj [(''results'', Arr [miscalculated_record])]" "[miscalculated_record]"] p
    by (simp add: post_def example_body_def configured_def env_miscalculating_def
         oracle_miscalculating_def example_JSON_parse_def trim_miscalculated)
  then show ?thesis by simp
qed

text \<open>
  C2 as stated fails: for a valid request with one campaign message, an oracle that
  answers \<^verbatim>\<open>{"results":[]}\<close> makes the handler return an array with no record.
\<close>
theorem record_count_counterexample:
  "getprop example_body ''campaigns'' = Arr [Str ''Buy now''] \<and>
   reply (handler env_no_results (post example_body)) = respond_json 200 (Arr [])"
proof -
  obtain p where p: "prompt (Arr [Str ''Buy now'']) (Arr [Str ''sale''])
          (Arr [Obj [(''CTA Text'', Str ''Shop''), (''Type Score'', Num ''3'')]])
          (Str ''sales'') (Obj []) = Inr p"
    using example_prompt by blast
  then show ?thesis
    by (simp add: handler_def try_block_def post_def example_body_def configured_def
        env_no_results_def oracle_no_results_def example_JSON_parse_def trim_no_results nullish_def)
qed


text \<open>
  C1, amended. The aggregation rule is not computed by this program. Every prompt the
  handler sends to the oracle, whatever the response turns out to be, ends with the
  final calculations (the weights 0.25, 0.20, 0.20, 0.15, 0.10, 0.10, the rounding to two
  decimal places and the three recommendations with their thresholds 4.0 and 3.0)
  followed by the output format. Every response with status 200 comes from exactly one
  oracle call, and its body is the \<^verbatim>\<open>results\<close> value of the parsed answer, unchanged,
  so the composite score and the recommendation of a record are those the oracle wrote.
\<close>

theorem composite_comes_from_oracle:
  "(\<forall>p \<in> set (oracle_calls (handler e req)).
      \<exists>before. p = before @ prompt_final_calculations @ prompt_output_format) \<and>
   (status (reply (handler e req)) = 200 \<longrightarrow>
      (\<exists>p responseText parsedJson.
         oracle_calls (handler e req) = [p] \<and>
         generateContent e p = Inr (Some responseText) \<and>
         JSON_parse e (trim responseText) = Inr parsedJson \<and>
         reply (handler e req) = respond_json 200 (getprop parsedJson ''results'')))"
proof (intro conjI ballI impI)
  fix p
  assume "p \<in> set (oracle_calls (handler e req))"
  then have "p \<in> set (snd (try_block e (req_body req)))"
    by (simp add: handler_calls split: if_splits)
  then have "prompt (getprop (req_body req) ''campaigns'') (getprop (req_body req) ''keywords'')
           (getprop (req_body req) ''ctas'') (getprop (req_body req) ''objective'')
           (getprop (req_body req) ''details'') = Inr p"
    by (auto simp: try_block_def Let_def split: if_splits sum.splits option.splits)
  then show "\<exists>before. p = before @ prompt_final_calculations @ prompt_output_format"
    by (rule prompt_ends_with_rule)
next
  assume s: "status (reply (handler e req)) = 200"
  have m: "req_method req = ''POST''" and c: "configured e"
    using s by (auto simp: handler_def respond_json_def split: if_splits)
  note r = handler_reply_try[OF m c]
  have valid: "truthy (getprop (req_body req) ''campaigns'')"
    "truthy (getprop (req_body req) ''keywords'')" "truthy (getprop (req_body req) ''ctas'')"
    "truthy (getprop (req_body req) ''objective'')" "truthy (getprop (req_body req) ''details'')"
    using s unfolding r
    by (auto simp: try_block_def Let_def respond_json_def split: if_splits)
  note t = try_block_valid[OF valid, of e]
  from s obtain p where
    p: "prompt (getprop (req_body req) ''campaigns'') (getprop (req_body req) ''keywords'')
           (getprop (req_body req) ''ctas'') (getprop (req_body req) ''objective'')
           (getprop (req_body req) ''details'') = Inr p"
    by (cases "prompt (getprop (req_body req) ''campaigns'') (getprop (req_body req) ''keywords'')
           (getprop (req_body req) ''ctas'') (getprop (req_body req) ''objective'')
           (getprop (req_body req) ''details'')") (auto simp: r t respond_json_def)
  from s obtain responseText where g: "generateContent e p = Inr (Some responseText)"
    by (cases "generateContent e p") (auto simp: r t p respond_json_def split: option.splits)
  from s obtain parsedJson where j: "JSON_parse e (trim responseText) = Inr parsedJson"
    by (cases "JSON_parse e (trim responseText)") (auto simp: r t p g respond_json_def)
  from s have ok: "truthy parsedJson \<and> truthy (getprop parsedJson ''results'')"
    by (auto simp: r t p g j respond_json_def split: if_splits)
  have "try_block e (req_body req) = (Inr (respond_json 200 (getprop parsedJson ''results'')), [p])"
    using ok by (simp add: t p g j)
  then have "oracle_calls (handler e req) = [p]"
    and "reply (handler e req) = respond_json 200 (getprop parsedJson ''results'')"
    using m c by (simp_all add: handler_def)
  with g j show "\<exists>p responseText parsedJson.
         oracle_calls (handler e req) = [p] \<and>
         generateContent e p = Inr (Some responseText) \<and>
         JSON_parse e (trim responseText) = Inr parsedJson \<and>
         reply (handler e req) = respond_json 200 (getprop parsedJson ''results'')"
    by blast
qed

theorem composite_comes_from_oracle_witness:
  "status (reply (handler env_no_results (post example_body))) = 200 \<and>
   (\<exists>before. oracle_calls (handler env_no_results (post example_body)) =
      [before @ prompt_final_calculations @ prompt_output_format]) \<and>
   status (reply (handler env_unreachable (post example_body))) = 500 \<and>
   (\<exists>before. oracle_calls (handler env_unreachable (post example_body)) =
      [before @ prompt_final_calculations @ prompt_output_format])"
proof -
  obtain p where p: "prompt (Arr [Str ''Buy now'']) (Arr [Str ''sale''])
          (Arr [Obj [(''CTA Text'', Str ''Shop''), (''Type Score'', Num ''3'')]])
          (Str ''sales'') (Obj []) = Inr p"
    using example_prompt by blast
  then have s: "status (reply (handler env_no_results (post example_body))) = 200"
    and c: "oracle_calls (handler env_no_results (post example_body)) = [p]"
    by (simp_all add: handler_def try_block_def post_def example_body_def configured_def
        env_no_results_def oracle_no_results_def example_JSON_parse_def trim_no_results nullish_def
        respond_json_def)
  from p have s': "status (reply (handler env_unreachable (post example_body))) = 500"
    and c': "oracle_calls (handler env_unreachable (post example_body)) = [p]"
    by (simp_all add: handler_def try_block_def post_def example_body_def configured_def
        env_unreachable_def oracle_unreachable_def nullish_def respond_json_def)
  from composite_comes_from_oracle[of env_no_results "post example_body"]
       composite_comes_from_oracle[of env_unreachable "post example_body"]
  have "\<exists>before. p = before @ prompt_final_calculations @ prompt_output_format"
    unfolding c c' by simp
  with s c s' c' show ?thesis by simp
qed

text \<open>
  C1 as stated fails: when the oracle answers with a record whose six component scores
  are all 5, whose composite score is 1 and whose recommendation is the third label, the
  handler returns that record as it is.
\<close>
theorem composite_counterexample:
  "reply (handler env_miscalculating (post example_body)) =
     respond_json 200 (Arr [miscalculated_record]) \<and>
   map (getprop miscalculated_record)
     [''subjectiveFitScore'', ''clarityAndImpactScore'', ''combinedEmotionScore'',
      ''ctaStrengthScore'', ''trendRelevanceScore'', ''steppsShareabilityScore''] =
     [Num ''5'', Num ''5'', Num ''5'', Num ''5'', Num ''5'', Num ''5''] \<and>
   getprop miscalculated_record ''weightedCampaignConfidenceScore'' = Num ''1'' \<and>
   getprop miscalculated_record ''recommendation'' = Str label_rework"
proof -
  obtain p where p: "prompt (Arr [Str ''Buy now'']) (Arr [Str ''sale''])
          (Arr [Obj [(''CTA Text'', Str ''Shop''), (''Type Score'', Num ''3'')]])
          (Str ''sales'') (Obj []) = Inr p"
    using example_prompt by blast
  have "miscalculated_text \<noteq> no_results_text" and "miscalculated_text \<noteq> ''{}''"
    by (simp_all add: miscalculated_text_def no_results_text_def)
  with p have "reply (handler env_miscalculating (post example_body)) =
     respond_json 200 (Arr [miscalculated_record])"
    by (simp add: handler_def try_block_def post_def example_body_def configured_def
        env_miscalculating_def oracle_miscalculating_def example_JSON_parse_def
        trim_miscalculated nullish_def)
  then show ?thesis by (simp add: miscalculated_record_def)
qed

end
